theory Spec2Isabelle
  imports Main "HOL-Library.Multiset"
begin

section \<open>ImageUploadModal: choosing a file\<close>

text \<open>
  \<^verbatim>\<open>src/components/Comment/ImageUploadModal.tsx\<close>. The component keeps three cells
  (\<^verbatim>\<open>isDragging\<close>, \<^verbatim>\<open>selectedFile\<close>, \<^verbatim>\<open>validationError\<close>); a browser \<^verbatim>\<open>File\<close> is
  represented by the two attributes the component reads.
\<close>

record File =
  file_name :: string
  file_type :: string

record ImageUploadModal_state =
  isDragging :: bool
  selectedFile :: "File option"
  validationError :: "string option"

text \<open>\<^verbatim>\<open>String.prototype.startsWith\<close>.\<close>

definition startsWith :: "string \<Rightarrow> string \<Rightarrow> bool" where
  "startsWith s p = (take (length p) s = p)"

text \<open>\<^verbatim>\<open>files[0]\<close>: \<^verbatim>\<open>undefined\<close> on an empty \<^verbatim>\<open>FileList\<close>.\<close>

definition first_file :: "File list \<Rightarrow> File option" where
  "first_file files = (case files of [] \<Rightarrow> None | f # _ \<Rightarrow> Some f)"

text \<open>The test \<^verbatim>\<open>file && file.type.startsWith('image/')\<close>.\<close>

definition is_image :: "File option \<Rightarrow> bool" where
  "is_image file = (case file of None \<Rightarrow> False | Some f \<Rightarrow> startsWith (file_type f) ''image/'')"

text \<open>The branch shared by \<^verbatim>\<open>handleDrop\<close> and \<^verbatim>\<open>handleFileSelect\<close>.\<close>

definition choose_file :: "File option \<Rightarrow> ImageUploadModal_state \<Rightarrow> ImageUploadModal_state" where
  "choose_file file st =
     (if is_image file
      then st\<lparr>selectedFile := file, validationError := None\<rparr>
      else st\<lparr>validationError := Some ''Please select an image file''\<rparr>)"

text \<open>\<^verbatim>\<open>handleDrop\<close>: \<^verbatim>\<open>e.dataTransfer.files\<close> is always a \<^verbatim>\<open>FileList\<close>.\<close>

definition handleDrop :: "File list \<Rightarrow> ImageUploadModal_state \<Rightarrow> ImageUploadModal_state" where
  "handleDrop files st = choose_file (first_file files) (st\<lparr>isDragging := False\<rparr>)"

text \<open>\<^verbatim>\<open>handleFileSelect\<close>: \<^verbatim>\<open>e.target.files?.[0]\<close>, where \<^verbatim>\<open>files\<close> may be \<^verbatim>\<open>null\<close>.\<close>

definition handleFileSelect ::
  "File list option \<Rightarrow> ImageUploadModal_state \<Rightarrow> ImageUploadModal_state" where
  "handleFileSelect files st =
     choose_file (case files of None \<Rightarrow> None | Some fs \<Rightarrow> first_file fs) st"


section \<open>Notes and the NoteList component\<close>

text \<open>
  Modelled from the spec: the declarations of \<^verbatim>\<open>NoteAccess\<close> and \<^verbatim>\<open>Note\<close>
  (\<^verbatim>\<open>@/types/note\<close>) and of \<^verbatim>\<open>ID\<close> (\<^verbatim>\<open>@/types/root\<close>) are not among the sources. The
  spec describes \<^verbatim>\<open>Note\<close> as "id, title, access level, timestamps" with an access scope
  that is "workspace-shared or private"; the three access levels are the literals that
  \<^verbatim>\<open>NoteList\<close> compares against. \<^verbatim>\<open>updatedDate\<close> holds the number of milliseconds
  since the epoch that the note's timestamp denotes, \<open>None\<close> when it is not a date at
  all.
\<close>

datatype NoteAccess = WORKSPACE | SHARED | PRIVATE

text \<open>An identifier is a string, a number, or absent (\<^verbatim>\<open>null\<close>/\<^verbatim>\<open>undefined\<close>).\<close>

datatype ID = StrId string | NumId int | NoId

record Note =
  note_id :: ID
  title :: string
  access :: NoteAccess
  updatedDate :: "int option"

text \<open>The prop \<^verbatim>\<open>type: 'workspace' | 'private'\<close>.\<close>

datatype list_type = type_workspace | type_private

text \<open>The callback given to \<^verbatim>\<open>notes.filter\<close>.\<close>

fun access_filter :: "list_type \<Rightarrow> Note \<Rightarrow> bool" where
  "access_filter type_workspace note = (access note = WORKSPACE \<or> access note = SHARED)"
| "access_filter type_private note = (access note = PRIVATE)"

text \<open>
  \<^verbatim>\<open>new Date(x).getTime()\<close>: a number of milliseconds, or \<^verbatim>\<open>NaN\<close> (\<open>None\<close>) when \<^verbatim>\<open>x\<close>
  is not a date or lies more than 8.64e15 ms from the epoch.
\<close>

definition getTime :: "int option \<Rightarrow> int option" where
  "getTime x =
     (case x of
        None \<Rightarrow> None
      | Some t \<Rightarrow> if \<bar>t\<bar> \<le> 8640000000000000 then Some t else None)"

text \<open>
  The comparator given to \<^verbatim>\<open>sort\<close>: \<^verbatim>\<open>getTime(b) - getTime(a)\<close>, which is \<^verbatim>\<open>NaN\<close> as soon
  as one of the two is. (The difference of two time values is computed in floating
  point; its sign is that of the exact difference.)
\<close>

definition by_updatedDate :: "Note \<Rightarrow> Note \<Rightarrow> int option" where
  "by_updatedDate a b =
     (case getTime (updatedDate b) of
        None \<Rightarrow> None
      | Some tb \<Rightarrow> (case getTime (updatedDate a) of None \<Rightarrow> None | Some ta \<Rightarrow> Some (tb - ta)))"

text \<open>How \<^verbatim>\<open>sort\<close> reads a comparator's result: \<^verbatim>\<open>NaN\<close> counts as \<^verbatim>\<open>0\<close>.\<close>

definition SortCompare :: "int option \<Rightarrow> int" where
  "SortCompare v = (case v of None \<Rightarrow> 0 | Some n \<Rightarrow> n)"

text \<open>
  \<^verbatim>\<open>Array.prototype.sort\<close> with a comparator is stable (ECMAScript 2019): the elements
  are put in place one by one from the right, each in front of the first element it does
  not compare greater than. With a comparator that is not consistent (one that yields
  \<^verbatim>\<open>NaN\<close>) the order is whatever these comparisons give.
\<close>

fun place :: "('a \<Rightarrow> 'a \<Rightarrow> int option) \<Rightarrow> 'a \<Rightarrow> 'a list \<Rightarrow> 'a list" where
  "place cmp x [] = [x]"
| "place cmp x (y # ys) =
     (if SortCompare (cmp x y) \<le> 0 then x # y # ys else y # place cmp x ys)"

definition Array_sort :: "('a \<Rightarrow> 'a \<Rightarrow> int option) \<Rightarrow> 'a list \<Rightarrow> 'a list" where
  "Array_sort cmp xs = foldr (place cmp) xs []"

definition filteredAndSortedNotes :: "Note list \<Rightarrow> list_type \<Rightarrow> Note list" where
  "filteredAndSortedNotes notes ty = Array_sort by_updatedDate (filter (access_filter ty) notes)"

text \<open>What the component returns: the skeleton, the empty-state line, or the list items.\<close>

datatype rendered = NoteListSkeleton | EmptyMessage string | NoteListItems "Note list"

definition NoteList :: "Note list \<Rightarrow> list_type \<Rightarrow> bool \<Rightarrow> rendered" where
  "NoteList notes ty isLoading =
     (let shown = filteredAndSortedNotes notes ty in
      if isLoading \<or> length notes = 0 then NoteListSkeleton
      else if length shown = 0
        then EmptyMessage (''No '' @ (if ty = type_workspace then ''workspace'' else ''private'') @ '' notes'')
      else NoteListItems shown)"

text \<open>The notes a rendering shows.\<close>

fun displayed_notes :: "rendered \<Rightarrow> Note list" where
  "displayed_notes (NoteListItems ns) = ns"
| "displayed_notes _ = []"

subsection \<open>NoteList over an array store\<close>

text \<open>
  Arrays are mutable objects: \<^verbatim>\<open>filter\<close> allocates a new array, \<^verbatim>\<open>sort\<close> reorders the
  array it is called on and returns that same reference. The store holds every array
  at its reference.
\<close>

type_synonym ref = nat
type_synonym 'a array_store = "'a list list"

definition Array_filter_ref ::
  "('a \<Rightarrow> bool) \<Rightarrow> ref \<Rightarrow> 'a array_store \<Rightarrow> ref \<times> 'a array_store" where
  "Array_filter_ref P r s = (length s, s @ [filter P (s ! r)])"

definition Array_sort_ref ::
  "('a \<Rightarrow> 'a \<Rightarrow> int option) \<Rightarrow> ref \<Rightarrow> 'a array_store \<Rightarrow> ref \<times> 'a array_store" where
  "Array_sort_ref cmp r s = (r, s[r := Array_sort cmp (s ! r)])"

definition NoteList_ref ::
  "ref \<Rightarrow> list_type \<Rightarrow> bool \<Rightarrow> Note array_store \<Rightarrow> rendered \<times> Note array_store" where
  "NoteList_ref notes ty isLoading s =
     (let (filtered, s1) = Array_filter_ref (access_filter ty) notes s;
          (shown, s2) = Array_sort_ref by_updatedDate filtered s1 in
      (if isLoading \<or> length (s2 ! notes) = 0 then NoteListSkeleton
       else if length (s2 ! shown) = 0
         then EmptyMessage (''No '' @ (if ty = type_workspace then ''workspace'' else ''private'') @ '' notes'')
       else NoteListItems (s2 ! shown),
       s2))"


text \<open>
  A note with a valid date; and newest first: of two notes with valid dates, the
  earlier in the list is not the older one.
\<close>

definition valid_date :: "Note \<Rightarrow> bool" where
  "valid_date n = (getTime (updatedDate n) \<noteq> None)"

definition not_older :: "Note \<Rightarrow> Note \<Rightarrow> bool" where
  "not_older a b =
     (case getTime (updatedDate a) of
        None \<Rightarrow> False
      | Some ta \<Rightarrow> (case getTime (updatedDate b) of None \<Rightarrow> False | Some tb \<Rightarrow> tb \<le> ta))"

abbreviation newest_first :: "Note list \<Rightarrow> bool" where
  "newest_first \<equiv> sorted_wrt not_older"


section \<open>The note service\<close>

text \<open>
  Modelled from the spec: \<^verbatim>\<open>NoteService\<close> and \<^verbatim>\<open>NoteError\<close>
  (\<^verbatim>\<open>@/services/note.service\<close>) are not among the sources; the spec calls them "REST calls
  against a service object". A call is recorded by its method and arguments, and its
  promise either resolves with a response (\<open>Inr\<close>) or rejects with a thrown value
  (\<open>Inl\<close>). \<^verbatim>\<open>NoteError\<close> is a subclass of \<^verbatim>\<open>Error\<close> carrying a message.
\<close>

datatype thrown =
    NoteError string   \<comment> \<open>an instance of \<^verbatim>\<open>NoteError\<close> and its message\<close>
  | Error string       \<comment> \<open>any other instance of \<^verbatim>\<open>Error\<close>, as \<^verbatim>\<open>new Error(message)\<close> builds\<close>
  | NonError           \<comment> \<open>a thrown value that is no \<^verbatim>\<open>Error\<close>\<close>

text \<open>\<^verbatim>\<open>err instanceof NoteError ? err.message : fallback\<close>.\<close>

fun error_message :: "thrown \<Rightarrow> string \<Rightarrow> string" where
  "error_message (NoteError m) fallback = m"
| "error_message _ fallback = fallback"

text \<open>\<^verbatim>\<open>err instanceof Error\<close>.\<close>

fun instanceof_Error :: "thrown \<Rightarrow> bool" where
  "instanceof_Error NonError = False"
| "instanceof_Error _ = True"

text \<open>
  Modelled from the spec: \<^verbatim>\<open>NoteWithContent\<close> "adds serialized document body" to
  \<^verbatim>\<open>Note\<close>, and \<^verbatim>\<open>NoteContent\<close> is the "plain text / HTML / JSON document"; the fields
  of \<^verbatim>\<open>NoteWithContent\<close> are those \<^verbatim>\<open>duplicateNote\<close> reads.
\<close>

record NoteWithContent = Note +
  content :: "string option"
  contentJson :: "string option"
  plainText :: "string option"

record NoteContent =
  content_src :: string
  content_text :: string
  content_json :: string

datatype accessType = ADMIN

datatype call =
    NoteService_getNote string
  | NoteService_createNote string NoteAccess string
      \<comment> \<open>\<^verbatim>\<open>title\<close>, \<^verbatim>\<open>grouping\<close>, \<^verbatim>\<open>organization_slug\<close>\<close>
  | NoteService_updateNoteContent ID "string option" "string option" "string option"
      \<comment> \<open>\<^verbatim>\<open>note\<close>, \<^verbatim>\<open>full_src\<close>, \<^verbatim>\<open>plain_text\<close>, \<^verbatim>\<open>full_json\<close>\<close>
  | NoteService_updateNoteTitle ID string
  | NoteService_deleteNote ID
  | NoteService_makePrivate ID
  | NoteService_updateNotePermissions ID ID "accessType option"

text \<open>
  What an action does, in the order it does it: updates of the hook's cells, service
  calls, and the other observable steps of \<^verbatim>\<open>useUpdateNote\<close>.
\<close>

datatype 'n effect =
    setNote "'n option"
  | setIsLoading bool
  | setError "thrown option"
  | Call call
  | console_error string
  | titleRef_assign string
  | onTitleUpdate_called string

fun is_state_update :: "'n effect \<Rightarrow> bool" where
  "is_state_update (setNote _) = True"
| "is_state_update (setIsLoading _) = True"
| "is_state_update (setError _) = True"
| "is_state_update _ = False"

definition state_updates :: "'n effect list \<Rightarrow> 'n effect list" where
  "state_updates es = filter is_state_update es"

fun calls :: "'n effect list \<Rightarrow> call list" where
  "calls [] = []"
| "calls (Call c # es) = c # calls es"
| "calls (_ # es) = calls es"

text \<open>An action yields its effects and how its promise settles.\<close>

type_synonym ('n, 'r) outcome = "'n effect list \<times> (thrown + 'r)"

text \<open>Effects that happen before the rest of an action.\<close>

definition first_do :: "'n effect list \<Rightarrow> ('n, 'r) outcome \<Rightarrow> ('n, 'r) outcome" where
  "first_do es k = (es @ fst k, snd k)"

text \<open>
  The \<^verbatim>\<open>catch\<close> and \<^verbatim>\<open>finally\<close> blocks shared by the throwing actions: wrap the message,
  record the error, clear the loading flag, rethrow.
\<close>

definition catch_rethrow :: "string \<Rightarrow> thrown \<Rightarrow> ('n, 'r) outcome" where
  "catch_rethrow fallback err =
     ([setError (Some (Error (error_message err fallback))), setIsLoading False],
      Inl (Error (error_message err fallback)))"


section \<open>The note hooks\<close>

text \<open>The cells of a hook: every hook has these two, some add \<^verbatim>\<open>note\<close>.\<close>

record hook_state =
  isLoading :: bool
  error :: "thrown option"

record 'n note_hook_state = hook_state +
  note' :: "'n option"

fun apply_effect :: "'n effect \<Rightarrow> 'm hook_state_scheme \<Rightarrow> 'm hook_state_scheme" where
  "apply_effect (setIsLoading b) st = st\<lparr>isLoading := b\<rparr>"
| "apply_effect (setError e) st = st\<lparr>error := e\<rparr>"
| "apply_effect _ st = st"

fun apply_note_effect :: "'n effect \<Rightarrow> 'n note_hook_state \<Rightarrow> 'n note_hook_state" where
  "apply_note_effect (setNote v) st = st\<lparr>note' := v\<rparr>"
| "apply_note_effect e st = apply_effect e st"

definition after :: "'n effect list \<Rightarrow> 'm hook_state_scheme \<Rightarrow> 'm hook_state_scheme" where
  "after es st = foldl (\<lambda>s e. apply_effect e s) st es"

definition note_after :: "'n effect list \<Rightarrow> 'n note_hook_state \<Rightarrow> 'n note_hook_state" where
  "note_after es st = foldl (\<lambda>s e. apply_note_effect e s) st es"

subsection \<open>useNote\<close>

record UseNoteOptions =
  sendImmediately :: "bool option"

definition fetch :: "string \<Rightarrow> thrown + NoteWithContent \<Rightarrow> (NoteWithContent, unit) outcome" where
  "fetch noteId response =
     ([setIsLoading True, setError None, Call (NoteService_getNote noteId)] @
      (case response of
         Inr noteData \<Rightarrow> [setNote (Some noteData)]
       | Inl err \<Rightarrow>
           [setError (Some (if instanceof_Error err then err else Error ''Failed to fetch note'')),
            setNote None]) @
      [setIsLoading False],
      Inr ())"

text \<open>The effect that fetches on mount unless \<^verbatim>\<open>sendImmediately\<close> is \<^verbatim>\<open>false\<close>.\<close>

definition fetches_on_mount :: "UseNoteOptions \<Rightarrow> bool" where
  "fetches_on_mount options = (sendImmediately options \<noteq> Some False)"

definition useNote ::
  "string \<Rightarrow> NoteWithContent note_hook_state \<Rightarrow>
   NoteWithContent note_hook_state \<times> (thrown + NoteWithContent \<Rightarrow> (NoteWithContent, unit) outcome)" where
  "useNote noteId cells =
     (\<lparr>isLoading = isLoading cells, error = error cells, note' = note' cells\<rparr>, fetch noteId)"

subsection \<open>useCreateNote\<close>

record CreateNoteInput =
  input_title :: string
  grouping :: NoteAccess
  organizationSlug :: string

definition createNote :: "CreateNoteInput \<Rightarrow> thrown + Note \<Rightarrow> (Note, Note) outcome" where
  "createNote params response =
     first_do [setIsLoading True, setError None,
               Call (NoteService_createNote (input_title params) (grouping params)
                       (organizationSlug params))]
       (case response of
          Inr r \<Rightarrow> ([setNote (Some r), setIsLoading False], Inr r)
        | Inl err \<Rightarrow> catch_rethrow ''Failed to create note'' err)"

definition useCreateNote ::
  "Note note_hook_state \<Rightarrow>
   Note note_hook_state \<times> (CreateNoteInput \<Rightarrow> thrown + Note \<Rightarrow> (Note, Note) outcome)" where
  "useCreateNote cells =
     (\<lparr>isLoading = isLoading cells, error = error cells, note' = note' cells\<rparr>, createNote)"

subsection \<open>useNoteContent\<close>

record UpdateNoteContentInput =
  input_note :: ID
  fullSrc :: "string option"
  input_plainText :: "string option"
  fullJson :: "string option"

definition updateNoteContent ::
  "UpdateNoteContentInput \<Rightarrow> thrown + NoteContent \<Rightarrow> (NoteContent, NoteContent) outcome" where
  "updateNoteContent params response =
     first_do [setIsLoading True, setError None,
               Call (NoteService_updateNoteContent (input_note params) (fullSrc params)
                       (input_plainText params) (fullJson params))]
       (case response of
          Inr r \<Rightarrow> ([setNote (Some r), setIsLoading False], Inr r)
        | Inl err \<Rightarrow> catch_rethrow ''Failed to update note content'' err)"

definition useNoteContent ::
  "NoteContent note_hook_state \<Rightarrow>
   NoteContent note_hook_state \<times>
     (UpdateNoteContentInput \<Rightarrow> thrown + NoteContent \<Rightarrow> (NoteContent, NoteContent) outcome)" where
  "useNoteContent cells =
     (\<lparr>isLoading = isLoading cells, error = error cells, note' = note' cells\<rparr>, updateNoteContent)"

subsection \<open>useDeleteNote, useMakeNotePrivate, useUpdateNotePermissions\<close>

definition deleteNote :: "ID \<Rightarrow> thrown + Note \<Rightarrow> (unit, Note) outcome" where
  "deleteNote noteId response =
     first_do [setIsLoading True, setError None, Call (NoteService_deleteNote noteId)]
       (case response of
          Inr r \<Rightarrow> ([setIsLoading False], Inr r)
        | Inl err \<Rightarrow> catch_rethrow ''Failed to delete note'' err)"

definition useDeleteNote ::
  "hook_state \<Rightarrow> hook_state \<times> (ID \<Rightarrow> thrown + Note \<Rightarrow> (unit, Note) outcome)" where
  "useDeleteNote cells = (\<lparr>isLoading = isLoading cells, error = error cells\<rparr>, deleteNote)"

definition makeNotePrivate :: "ID \<Rightarrow> thrown + Note \<Rightarrow> (unit, Note) outcome" where
  "makeNotePrivate noteId response =
     first_do [setIsLoading True, setError None, Call (NoteService_makePrivate noteId)]
       (case response of
          Inr r \<Rightarrow> ([setIsLoading False], Inr r)
        | Inl err \<Rightarrow> catch_rethrow ''Failed to make note private'' err)"

definition useMakeNotePrivate ::
  "hook_state \<Rightarrow> hook_state \<times> (ID \<Rightarrow> thrown + Note \<Rightarrow> (unit, Note) outcome)" where
  "useMakeNotePrivate cells = (\<lparr>isLoading = isLoading cells, error = error cells\<rparr>, makeNotePrivate)"

record UpdateNotePermissionsInput =
  input_noteId :: ID
  organizationId :: ID
  input_accessType :: "accessType option"

definition updatePermissions ::
  "UpdateNotePermissionsInput \<Rightarrow> thrown + bool \<Rightarrow> (unit, bool) outcome" where
  "updatePermissions params response =
     first_do [setIsLoading True, setError None,
               Call (NoteService_updateNotePermissions (input_noteId params) (organizationId params)
                       (input_accessType params))]
       (case response of
          Inr r \<Rightarrow> ([setIsLoading False], Inr r)
        | Inl err \<Rightarrow> catch_rethrow ''Failed to update note permissions'' err)"

definition useUpdateNotePermissions ::
  "hook_state \<Rightarrow>
   hook_state \<times> (UpdateNotePermissionsInput \<Rightarrow> thrown + bool \<Rightarrow> (unit, bool) outcome)" where
  "useUpdateNotePermissions cells =
     (\<lparr>isLoading = isLoading cells, error = error cells\<rparr>, updatePermissions)"

subsection \<open>useDuplicateNote\<close>

text \<open>Truthiness of an optional string: \<^verbatim>\<open>undefined\<close> and the empty string are falsy.\<close>

definition truthy :: "string option \<Rightarrow> bool" where
  "truthy s = (case s of None \<Rightarrow> False | Some v \<Rightarrow> v \<noteq> [])"

definition duplicateNote ::
  "string \<Rightarrow> string \<Rightarrow> thrown + NoteWithContent \<Rightarrow> thrown + Note \<Rightarrow> thrown + NoteContent \<Rightarrow>
   (unit, Note) outcome" where
  "duplicateNote noteId organizationSlug' got created copied =
     first_do [setIsLoading True, setError None, Call (NoteService_getNote noteId)]
       (case got of
          Inl err \<Rightarrow> catch_rethrow ''Failed to duplicate note'' err
        | Inr originalNote \<Rightarrow>
            first_do [Call (NoteService_createNote (title originalNote @ '' (Copy)'')
                              (access originalNote) organizationSlug')]
              (case created of
                 Inl err \<Rightarrow> catch_rethrow ''Failed to duplicate note'' err
               | Inr newNote \<Rightarrow>
                   if truthy (content originalNote) \<or> truthy (contentJson originalNote)
                   then first_do [Call (NoteService_updateNoteContent (note_id newNote)
                                          (content originalNote) (plainText originalNote)
                                          (contentJson originalNote))]
                          (case copied of
                             Inl err \<Rightarrow> catch_rethrow ''Failed to duplicate note'' err
                           | Inr _ \<Rightarrow> ([setIsLoading False], Inr newNote))
                   else ([setIsLoading False], Inr newNote)))"

definition useDuplicateNote ::
  "hook_state \<Rightarrow>
   hook_state \<times>
     (string \<Rightarrow> string \<Rightarrow> thrown + NoteWithContent \<Rightarrow> thrown + Note \<Rightarrow> thrown + NoteContent \<Rightarrow>
      (unit, Note) outcome)" where
  "useDuplicateNote cells = (\<lparr>isLoading = isLoading cells, error = error cells\<rparr>, duplicateNote)"


subsection \<open>useUpdateNote: the debounced autosave\<close>

text \<open>
  Modelled from the spec: the editor (\<^verbatim>\<open>@tiptap/react\<close>) and
  \<^verbatim>\<open>getDocumentTitleFromEditor\<close> are not among the sources. An editor is the four values
  the hook reads from it; \<^verbatim>\<open>documentTitle\<close> is what \<^verbatim>\<open>getDocumentTitleFromEditor\<close>
  returns for it (\<open>None\<close> when it finds no title). A JSON document is kept as the text
  that \<^verbatim>\<open>JSON.stringify\<close> gives for it.
\<close>

datatype json = JSONContent string

fun JSON_stringify :: "json \<Rightarrow> string" where
  "JSON_stringify (JSONContent text) = text"

record Editor =
  getJSON :: json
  getHTML :: string
  getText :: string
  documentTitle :: "string option"

text \<open>
  \<^verbatim>\<open>onTitleUpdate\<close> is an optional callback, which may itself throw; \<^verbatim>\<open>debounceMs\<close> is
  an optional number of milliseconds.
\<close>

record UpdateNoteOptions =
  onTitleUpdate :: "(string \<Rightarrow> thrown option) option"
  debounceMs :: "nat option"

text \<open>JavaScript truthiness of an identifier: \<^verbatim>\<open>''\<close>, \<^verbatim>\<open>0\<close> and absent are falsy.\<close>

fun truthy_ID :: "ID \<Rightarrow> bool" where
  "truthy_ID (StrId s) = (s \<noteq> [])"
| "truthy_ID (NumId n) = (n \<noteq> 0)"
| "truthy_ID NoId = False"

text \<open>
  How the two requests of one flush settle: the result of each, and whether the title
  promise (with its \<^verbatim>\<open>then\<close>) settles before the content promise does.
\<close>

record responses =
  updateNoteTitle_result :: "thrown + unit"
  updateNoteContent_result :: "thrown + unit"
  title_settles_first :: bool

text \<open>The \<^verbatim>\<open>catch\<close> block of the flush: it records and logs the error and does not rethrow.\<close>

definition catch_log :: "thrown \<Rightarrow> unit effect list" where
  "catch_log err =
     [setError (Some (Error (error_message err ''Failed to update note''))),
      console_error ''Error updating note:'']"

text \<open>The end of the \<^verbatim>\<open>try\<close>: \<^verbatim>\<open>catch\<close> when the awaited promise rejected, then \<^verbatim>\<open>finally\<close>.\<close>

definition settle :: "thrown + unit \<Rightarrow> unit effect list" where
  "settle awaited = (case awaited of Inl err \<Rightarrow> catch_log err | Inr _ \<Rightarrow> []) @ [setIsLoading False]"

text \<open>
  \<^verbatim>\<open>NoteService.updateNoteTitle(...).then(() => options.onTitleUpdate?.(newTitle))\<close>:
  the callback runs once the request has resolved, and the chained promise rejects when
  the request or the callback fails.
\<close>

definition title_promise ::
  "UpdateNoteOptions \<Rightarrow> string \<Rightarrow> thrown + unit \<Rightarrow> unit effect list \<times> (thrown + unit)" where
  "title_promise options newTitle result =
     (case result of
        Inl err \<Rightarrow> ([], Inl err)
      | Inr _ \<Rightarrow>
          (case onTitleUpdate options of
             None \<Rightarrow> ([], Inr ())
           | Some callback \<Rightarrow>
               ([onTitleUpdate_called newTitle],
                case callback newTitle of None \<Rightarrow> Inr () | Some err \<Rightarrow> Inl err)))"

text \<open>
  \<^verbatim>\<open>await Promise.all(promises)\<close> followed by \<^verbatim>\<open>catch\<close> and \<^verbatim>\<open>finally\<close>. The await ends at
  the first rejection, or when every promise has resolved; a title request that
  resolves after the content request was rejected still runs its callback.
\<close>

fun await_all ::
  "(unit effect list \<times> (thrown + unit)) option \<Rightarrow> thrown + unit \<Rightarrow> bool \<Rightarrow> unit effect list" where
  "await_all None content_result _ = settle content_result"
| "await_all (Some (callback, title_result)) content_result True =
     callback @ settle (case title_result of Inl err \<Rightarrow> Inl err | Inr _ \<Rightarrow> content_result)"
| "await_all (Some (callback, title_result)) content_result False =
     (case content_result of
        Inl err \<Rightarrow> settle (Inl err) @ callback
      | Inr _ \<Rightarrow> callback @ settle title_result)"

text \<open>\<^verbatim>\<open>getDocumentTitleFromEditor(editor) || ''\<close>.\<close>

definition newTitle_of :: "Editor \<Rightarrow> string" where
  "newTitle_of editor = (case documentTitle editor of None \<Rightarrow> [] | Some t \<Rightarrow> t)"

text \<open>
  The function wrapped by \<^verbatim>\<open>debounce\<close>. \<^verbatim>\<open>current\<close> is \<^verbatim>\<open>titleRef.current\<close> when it
  starts; its promise always resolves.
\<close>

definition debouncedUpdate ::
  "UpdateNoteOptions \<Rightarrow> responses \<Rightarrow> string \<Rightarrow> Editor option \<Rightarrow> ID \<Rightarrow> (unit, unit) outcome" where
  "debouncedUpdate options rs current editor noteId =
     (case editor of
        None \<Rightarrow> ([console_error ''Editor or noteId is undefined in debouncedUpdate''], Inr ())
      | Some ed \<Rightarrow>
          if \<not> truthy_ID noteId
          then ([console_error ''Editor or noteId is undefined in debouncedUpdate''], Inr ())
          else
            let json = getJSON ed;
                html = getHTML ed;
                newTitle = newTitle_of ed;
                changed = (newTitle \<noteq> current)
            in ([setIsLoading True, setError None] @
                (if changed
                 then [titleRef_assign newTitle, Call (NoteService_updateNoteTitle noteId newTitle)]
                 else []) @
                [Call (NoteService_updateNoteContent noteId (Some html) (Some (getText ed))
                         (Some (JSON_stringify json)))] @
                await_all
                  (if changed
                   then Some (title_promise options newTitle (updateNoteTitle_result rs))
                   else None)
                  (updateNoteContent_result rs) (title_settles_first rs),
                Inr ()))"

text \<open>
  Modelled from the spec: lodash's \<^verbatim>\<open>debounce\<close> is not among the sources. The spec's
  "debounced update" is "a trailing-edge delayed invocation": the wrapped function runs
  once, when \<^verbatim>\<open>wait\<close> milliseconds have passed since the last call, with the arguments of
  that call, and \<^verbatim>\<open>cancel\<close> drops the pending invocation. Time is counted in
  milliseconds.

  The state of one mounted \<^verbatim>\<open>useUpdateNote\<close> is its two cells, \<^verbatim>\<open>titleRef.current\<close>, and
  the debounce timer: \<^verbatim>\<open>timer\<close> holds the arguments and the time of the last call while
  an invocation is pending.
\<close>

record update_note_hook = hook_state +
  titleRef :: string
  timer :: "(Editor \<times> ID \<times> nat) option"

definition mount :: update_note_hook where
  "mount = \<lparr>isLoading = False, error = None, titleRef = [], timer = None\<rparr>"

text \<open>\<^verbatim>\<open>options.debounceMs ?? 2000\<close>.\<close>

definition wait :: "UpdateNoteOptions \<Rightarrow> nat" where
  "wait options = (case debounceMs options of None \<Rightarrow> 2000 | Some ms \<Rightarrow> ms)"

fun apply_update_effect :: "unit effect \<Rightarrow> update_note_hook \<Rightarrow> update_note_hook" where
  "apply_update_effect (titleRef_assign t) h = h\<lparr>titleRef := t\<rparr>"
| "apply_update_effect e h = apply_effect e h"

definition update_after :: "unit effect list \<Rightarrow> update_note_hook \<Rightarrow> update_note_hook" where
  "update_after es h = foldl (\<lambda>s e. apply_update_effect e s) h es"

text \<open>
  \<^verbatim>\<open>updateNote(editor)\<close>, called at time \<^verbatim>\<open>now\<close>: without an editor it logs and returns;
  otherwise it calls the debounced function, which (re)starts the timer.
\<close>

definition updateNote :: "ID \<Rightarrow> nat \<Rightarrow> Editor option \<Rightarrow> update_note_hook \<Rightarrow> update_note_hook" where
  "updateNote noteId now editor h =
     (case editor of
        None \<Rightarrow> h
      | Some ed \<Rightarrow> h\<lparr>timer := Some (ed, noteId, now)\<rparr>)"

text \<open>The cleanup of the mount effect: \<^verbatim>\<open>debouncedUpdate.current.cancel()\<close>.\<close>

definition cancel :: "update_note_hook \<Rightarrow> update_note_hook" where
  "cancel h = h\<lparr>timer := None\<rparr>"

definition useUpdateNote ::
  "ID \<Rightarrow> update_note_hook \<Rightarrow>
   hook_state \<times> (nat \<Rightarrow> Editor option \<Rightarrow> update_note_hook \<Rightarrow> update_note_hook)" where
  "useUpdateNote noteId h = (\<lparr>isLoading = isLoading h, error = error h\<rparr>, updateNote noteId)"

text \<open>
  Time passes until \<^verbatim>\<open>now\<close>: a pending invocation whose wait is over runs, at the
  moment the wait ended, against the responses the service gives then. The trace lists
  each invocation with its time and its effects.
\<close>

type_synonym trace = "(nat \<times> unit effect list) list"

definition elapse ::
  "UpdateNoteOptions \<Rightarrow> (nat \<Rightarrow> responses) \<Rightarrow> nat \<Rightarrow> update_note_hook \<Rightarrow> update_note_hook \<times> trace" where
  "elapse options service now h =
     (case timer h of
        None \<Rightarrow> (h, [])
      | Some (ed, noteId, called) \<Rightarrow>
          if called + wait options \<le> now
          then let due = called + wait options;
                   es = fst (debouncedUpdate options (service due) (titleRef h) (Some ed) noteId)
               in (update_after es (h\<lparr>timer := None\<rparr>), [(due, es)])
          else (h, []))"

text \<open>What happens to a mounted hook: a call of the update function, or the unmount.\<close>

datatype input = update "Editor option" ID | unmount

fun run ::
  "UpdateNoteOptions \<Rightarrow> (nat \<Rightarrow> responses) \<Rightarrow> (nat \<times> input) list \<Rightarrow> update_note_hook \<Rightarrow>
   update_note_hook \<times> trace" where
  "run options service [] h = (h, [])"
| "run options service ((now, i) # rest) h =
     (let (h1, before) = elapse options service now h;
          h2 = (case i of update editor noteId \<Rightarrow> updateNote noteId now editor h1
                        | unmount \<Rightarrow> cancel h1);
          (h3, later) = run options service rest h2
      in (h3, before @ later))"

text \<open>The inputs, and then time passing until \<^verbatim>\<open>horizon\<close>.\<close>

definition run_until ::
  "UpdateNoteOptions \<Rightarrow> (nat \<Rightarrow> responses) \<Rightarrow> (nat \<times> input) list \<Rightarrow> nat \<Rightarrow> update_note_hook \<Rightarrow>
   update_note_hook \<times> trace" where
  "run_until options service inputs horizon h =
     (let (h1, before) = run options service inputs h;
          (h2, later) = elapse options service horizon h1
      in (h2, before @ later))"

text \<open>
  A burst: calls with an editor, each made before the wait that the previous call
  started is over. \<^verbatim>\<open>called\<close> is the time of the previous call.
\<close>

fun burst :: "nat \<Rightarrow> nat \<Rightarrow> (nat \<times> Editor \<times> ID) list \<Rightarrow> bool" where
  "burst w called [] = True"
| "burst w called ((now, ed, noteId) # cs) = (called \<le> now \<and> now < called + w \<and> burst w now cs)"

definition as_input :: "nat \<times> Editor \<times> ID \<Rightarrow> nat \<times> input" where
  "as_input c = (case c of (now, ed, noteId) \<Rightarrow> (now, update (Some ed) noteId))"


section \<open>Vocabulary of the properties\<close>

subsection \<open>What a flush awaits\<close>

text \<open>
  The result of \<^verbatim>\<open>await Promise.all(promises)\<close>: the first rejection in the order in
  which the promises settle, or success.
\<close>

fun awaited ::
  "(unit effect list \<times> (thrown + unit)) option \<Rightarrow> thrown + unit \<Rightarrow> bool \<Rightarrow> thrown + unit" where
  "awaited None content_result _ = content_result"
| "awaited (Some (_, title_result)) content_result True =
     (case title_result of Inl err \<Rightarrow> Inl err | Inr _ \<Rightarrow> content_result)"
| "awaited (Some (_, title_result)) content_result False =
     (case content_result of Inl err \<Rightarrow> Inl err | Inr _ \<Rightarrow> title_result)"

text \<open>Effects that assign \<^verbatim>\<open>titleRef.current\<close>, and calls that update the title.\<close>

fun assigns_titleRef :: "'n effect \<Rightarrow> bool" where
  "assigns_titleRef (titleRef_assign _) = True"
| "assigns_titleRef _ = False"



subsection \<open>The loading pattern\<close>

text \<open>
  The first two effects set \<^verbatim>\<open>isLoading\<close> and clear \<^verbatim>\<open>error\<close>; the last update of a
  cell clears \<^verbatim>\<open>isLoading\<close>; a failure is recorded in \<^verbatim>\<open>error\<close> as a new \<^verbatim>\<open>Error\<close>
  with the \<^verbatim>\<open>NoteError\<close>'s message or the action's fallback message.
\<close>

definition sets_loading_first :: "'n effect list \<Rightarrow> bool" where
  "sets_loading_first es = (take 2 es = [setIsLoading True, setError None])"

definition clears_loading_last :: "'n effect list \<Rightarrow> bool" where
  "clears_loading_last es =
     (state_updates es \<noteq> [] \<and> last (state_updates es) = setIsLoading False)"

definition records_failure :: "string \<Rightarrow> thrown \<Rightarrow> 'n effect list \<Rightarrow> bool" where
  "records_failure fallback err es =
     (setError (Some (Error (error_message err fallback))) \<in> set es)"


text \<open>Why a service call failed, if it did.\<close>

definition rejection :: "thrown + 'r \<Rightarrow> thrown option" where
  "rejection response = (case response of Inl err \<Rightarrow> Some err | Inr _ \<Rightarrow> None)"

text \<open>
  The failure that \<^verbatim>\<open>duplicateNote\<close> meets: that of the first of its calls to fail, the
  content copy being made only when the original has content.
\<close>

definition duplicate_rejection ::
  "thrown + NoteWithContent \<Rightarrow> thrown + Note \<Rightarrow> thrown + NoteContent \<Rightarrow> thrown option" where
  "duplicate_rejection got created copied =
     (case got of
        Inl err \<Rightarrow> Some err
      | Inr originalNote \<Rightarrow>
          (case created of
             Inl err \<Rightarrow> Some err
           | Inr _ \<Rightarrow>
               if truthy (content originalNote) \<or> truthy (contentJson originalNote)
               then rejection copied else None))"

text \<open>
  An action that records a failure and rethrows it, and one that records it, logs it
  with \<^verbatim>\<open>console.error\<close> and resolves.
\<close>

definition rethrow_pattern :: "string \<Rightarrow> thrown option \<Rightarrow> ('n, 'r) outcome \<Rightarrow> bool" where
  "rethrow_pattern fallback failure out =
     (sets_loading_first (fst out) \<and> calls (fst out) \<noteq> [] \<and> clears_loading_last (fst out) \<and>
      (case failure of
         None \<Rightarrow> isl (snd out) = False
       | Some err \<Rightarrow>
           records_failure fallback err (fst out) \<and>
           snd out = Inl (Error (error_message err fallback))))"

definition log_pattern :: "string \<Rightarrow> thrown option \<Rightarrow> ('n, unit) outcome \<Rightarrow> bool" where
  "log_pattern fallback failure out =
     (sets_loading_first (fst out) \<and> calls (fst out) \<noteq> [] \<and> clears_loading_last (fst out) \<and>
      snd out = Inr () \<and>
      (case failure of
         None \<Rightarrow> True
       | Some err \<Rightarrow>
           records_failure fallback err (fst out) \<and>
           console_error ''Error updating note:'' \<in> set (fst out)))"

subsection \<open>Calls of a burst\<close>

text \<open>An input that starts the debounce timer: a call of the update function with an editor.\<close>

fun arms :: "input \<Rightarrow> bool" where
  "arms (update (Some _) _) = True"
| "arms _ = False"

text \<open>The service calls made in a trace, in order.\<close>

definition network_calls :: "trace \<Rightarrow> call list" where
  "network_calls tr = concat (map (\<lambda>(at, es). calls es) tr)"

text \<open>What the debounce timer holds after a call.\<close>

definition pending_of :: "nat \<times> Editor \<times> ID \<Rightarrow> Editor \<times> ID \<times> nat" where
  "pending_of c = (case c of (now, ed, noteId) \<Rightarrow> (ed, noteId, now))"

subsection \<open>Example values\<close>

text \<open>
  Two editors, the default options (\<^verbatim>\<open>options = {}\<close>), and service responses: both
  requests resolve, the title request is rejected, the content request is rejected.
\<close>

definition example_editor :: Editor where
  "example_editor =
     \<lparr>getJSON = JSONContent ''{}'', getHTML = ''<h1>Plan</h1>'', getText = ''Plan'',
      documentTitle = Some ''Plan''\<rparr>"

definition revised_editor :: Editor where
  "revised_editor =
     \<lparr>getJSON = JSONContent ''[2]'', getHTML = ''<h1>Plan B</h1>'', getText = ''Plan B'',
      documentTitle = Some ''Plan B''\<rparr>"

definition default_options :: UpdateNoteOptions where
  "default_options = \<lparr>onTitleUpdate = None, debounceMs = None\<rparr>"

definition resolved :: responses where
  "resolved = \<lparr>updateNoteTitle_result = Inr (), updateNoteContent_result = Inr (),
                title_settles_first = True\<rparr>"


definition content_rejected :: responses where
  "content_rejected = \<lparr>updateNoteTitle_result = Inr (),
                        updateNoteContent_result = Inl (NoteError ''Forbidden''),
                        title_settles_first = True\<rparr>"


section \<open>Properties of ImageUploadModal\<close>

lemma choose_file_accept:
  "is_image file \<Longrightarrow>
     selectedFile (choose_file file st) = file \<and> validationError (choose_file file st) = None"
  by (simp add: choose_file_def)

lemma choose_file_reject:
  "\<not> is_image file \<Longrightarrow>
     selectedFile (choose_file file st) = selectedFile st \<and>
     validationError (choose_file file st) = Some ''Please select an image file''"
  by (simp add: choose_file_def)

text \<open>
  C10. A dropped or chosen file becomes the selected file, with the validation error
  cleared, exactly when the file exists and its MIME type starts with \<^verbatim>\<open>image/\<close>;
  otherwise the selected file stays as it was and the validation error is
  \<^verbatim>\<open>Please select an image file\<close>.
\<close>

theorem ImageUploadModal_selects_images_only:
  "(is_image (first_file fs) \<longrightarrow>
      selectedFile (handleDrop fs st) = first_file fs \<and>
      validationError (handleDrop fs st) = None)
 \<and> (\<not> is_image (first_file fs) \<longrightarrow>
      selectedFile (handleDrop fs st) = selectedFile st \<and>
      validationError (handleDrop fs st) = Some ''Please select an image file'')
 \<and> (is_image (case fo of None \<Rightarrow> None | Some fs' \<Rightarrow> first_file fs') \<longrightarrow>
      selectedFile (handleFileSelect fo st) = (case fo of None \<Rightarrow> None | Some fs' \<Rightarrow> first_file fs') \<and>
      validationError (handleFileSelect fo st) = None)
 \<and> (\<not> is_image (case fo of None \<Rightarrow> None | Some fs' \<Rightarrow> first_file fs') \<longrightarrow>
      selectedFile (handleFileSelect fo st) = selectedFile st \<and>
      validationError (handleFileSelect fo st) = Some ''Please select an image file'')
 \<and> (is_image fl \<longleftrightarrow> (\<exists>f. fl = Some f \<and> startsWith (file_type f) ''image/''))"
proof -
  have "is_image fl \<longleftrightarrow> (\<exists>f. fl = Some f \<and> startsWith (file_type f) ''image/'')"
    by (cases fl) (simp_all add: is_image_def)
  then show ?thesis
    unfolding handleDrop_def handleFileSelect_def
    using choose_file_accept choose_file_reject
    by simp
qed

theorem ImageUploadModal_selects_images_only_witness:
  "selectedFile (handleDrop [\<lparr>file_name = ''a.png'', file_type = ''image/png''\<rparr>]
       \<lparr>isDragging = True, selectedFile = None, validationError = None\<rparr>)
     = Some \<lparr>file_name = ''a.png'', file_type = ''image/png''\<rparr>
   \<and> validationError (handleFileSelect (Some [\<lparr>file_name = ''a.pdf'', file_type = ''application/pdf''\<rparr>])
       \<lparr>isDragging = False,
        selectedFile = Some \<lparr>file_name = ''a.png'', file_type = ''image/png''\<rparr>,
        validationError = None\<rparr>)
     = Some ''Please select an image file''
   \<and> selectedFile (handleFileSelect (Some [\<lparr>file_name = ''a.pdf'', file_type = ''application/pdf''\<rparr>])
       \<lparr>isDragging = False,
        selectedFile = Some \<lparr>file_name = ''a.png'', file_type = ''image/png''\<rparr>,
        validationError = None\<rparr>)
     = Some \<lparr>file_name = ''a.png'', file_type = ''image/png''\<rparr>"
  using ImageUploadModal_selects_images_only
    [of "[\<lparr>file_name = ''a.png'', file_type = ''image/png''\<rparr>]"
        "\<lparr>isDragging = True, selectedFile = None, validationError = None\<rparr>"
        "Some [\<lparr>file_name = ''a.pdf'', file_type = ''application/pdf''\<rparr>]"]
    ImageUploadModal_selects_images_only
    [of "[]"
        "\<lparr>isDragging = False,
          selectedFile = Some \<lparr>file_name = ''a.png'', file_type = ''image/png''\<rparr>,
          validationError = None\<rparr>"
        "Some [\<lparr>file_name = ''a.pdf'', file_type = ''application/pdf''\<rparr>]"]
  by (simp add: first_file_def is_image_def startsWith_def)



section \<open>Properties of NoteList\<close>

lemma mset_place: "mset (place cmp x xs) = add_mset x (mset xs)"
  by (induction xs) simp_all

lemma mset_Array_sort: "mset (Array_sort cmp xs) = mset xs"
  by (induction xs) (simp_all add: Array_sort_def mset_place)

lemma set_place: "set (place cmp x xs) = insert x (set xs)"
  using mset_place [of cmp x xs] by (metis set_mset_add_mset_insert set_mset_mset)

lemma not_older_iff:
  "valid_date a \<Longrightarrow> valid_date b \<Longrightarrow>
   not_older a b \<longleftrightarrow> SortCompare (by_updatedDate a b) \<le> 0"
  by (auto simp: valid_date_def not_older_def by_updatedDate_def SortCompare_def)

lemma not_older_total:
  "valid_date a \<Longrightarrow> valid_date b \<Longrightarrow> not_older a b \<or> not_older b a"
  by (auto simp: valid_date_def not_older_def)

lemma not_older_trans: "not_older a b \<Longrightarrow> not_older b c \<Longrightarrow> not_older a c"
  by (auto simp: not_older_def split: option.splits)

lemma newest_first_place:
  "valid_date x \<Longrightarrow> list_all valid_date xs \<Longrightarrow> newest_first xs \<Longrightarrow>
   newest_first (place by_updatedDate x xs)"
proof (induction xs)
  case Nil
  show ?case by simp
next
  case (Cons y ys)
  show ?case
  proof (cases "SortCompare (by_updatedDate x y) \<le> 0")
    case True
    then have xy: "not_older x y" using Cons.prems not_older_iff [of x y] by simp
    have "\<forall>z \<in> set ys. not_older x z"
      using Cons.prems(3) xy not_older_trans by auto
    with xy Cons.prems(3) True show ?thesis by simp
  next
    case False
    then have yx: "not_older y x"
      using Cons.prems not_older_iff [of x y] not_older_total [of x y] by auto
    have "newest_first (place by_updatedDate x ys)"
      using Cons.IH Cons.prems by simp
    moreover have "\<forall>z \<in> set (place by_updatedDate x ys). not_older y z"
      using Cons.prems(3) yx by (auto simp: set_place)
    ultimately show ?thesis using False by simp
  qed
qed

lemma valid_place:
  "valid_date x \<Longrightarrow> list_all valid_date xs \<Longrightarrow> list_all valid_date (place cmp x xs)"
  by (simp add: list_all_iff set_place)

lemma newest_first_Array_sort:
  "list_all valid_date xs \<Longrightarrow>
   list_all valid_date (Array_sort by_updatedDate xs) \<and> newest_first (Array_sort by_updatedDate xs)"
proof (induction xs)
  case Nil
  show ?case by (simp add: Array_sort_def)
next
  case (Cons x xs)
  then have ih: "list_all valid_date (Array_sort by_updatedDate xs)"
      "newest_first (Array_sort by_updatedDate xs)" and x: "valid_date x"
    by simp_all
  have "Array_sort by_updatedDate (x # xs) = place by_updatedDate x (Array_sort by_updatedDate xs)"
    by (simp add: Array_sort_def)
  then show ?case
    using newest_first_place [OF x ih] valid_place [OF x ih(1), of by_updatedDate] by simp
qed

lemma filter_scopes_mset:
  "mset (filter (access_filter type_workspace) ns) + mset (filter (access_filter type_private) ns)
     = mset ns"
proof -
  have "access_filter type_private = (\<lambda>n. \<not> access_filter type_workspace n)"
  proof (rule ext)
    fix n show "access_filter type_private n = (\<not> access_filter type_workspace n)"
      by (cases "access n") simp_all
  qed
  then show ?thesis
    using multiset_partition [of "mset ns" "access_filter type_workspace"] by simp
qed

text \<open>
  C5 (as amended). A note's access is workspace-shared (\<^verbatim>\<open>WORKSPACE\<close> or \<^verbatim>\<open>SHARED\<close>) or
  private, never both. For every notes array, the list that NoteList computes for type
  \<^verbatim>\<open>workspace\<close> holds exactly the workspace-shared notes and the one for type \<^verbatim>\<open>private\<close>
  exactly the private ones, so the two lists together are the input. When every
  \<^verbatim>\<open>updatedDate\<close> of the array is a valid date, the list is ordered by \<^verbatim>\<open>updatedDate\<close>,
  newest first. The list is what NoteList displays when it is not loading; while it is
  loading it renders the skeleton.
\<close>

theorem NoteList_partitions_by_access:
  "(access n = WORKSPACE \<or> access n = SHARED) \<noteq> (access n = PRIVATE)
 \<and> mset (filteredAndSortedNotes ns type_workspace) =
      filter_mset (\<lambda>n. access n = WORKSPACE \<or> access n = SHARED) (mset ns)
 \<and> mset (filteredAndSortedNotes ns type_private) =
      filter_mset (\<lambda>n. access n = PRIVATE) (mset ns)
 \<and> mset (filteredAndSortedNotes ns type_workspace) + mset (filteredAndSortedNotes ns type_private)
      = mset ns
 \<and> (list_all valid_date ns \<longrightarrow> sorted_wrt not_older (filteredAndSortedNotes ns ty))
 \<and> displayed_notes (NoteList ns ty False) = filteredAndSortedNotes ns ty
 \<and> NoteList ns ty True = NoteListSkeleton"
proof -
  have a: "(access n = WORKSPACE \<or> access n = SHARED) \<noteq> (access n = PRIVATE)"
    by (cases "access n") simp_all
  have w: "access_filter type_workspace = (\<lambda>n. access n = WORKSPACE \<or> access n = SHARED)"
    by (rule ext) simp
  have p: "access_filter type_private = (\<lambda>n. access n = PRIVATE)"
    by (rule ext) simp
  have b: "mset (filteredAndSortedNotes ns type_workspace) =
      filter_mset (\<lambda>n. access n = WORKSPACE \<or> access n = SHARED) (mset ns)"
    by (simp add: filteredAndSortedNotes_def mset_Array_sort w)
  have c: "mset (filteredAndSortedNotes ns type_private) =
      filter_mset (\<lambda>n. access n = PRIVATE) (mset ns)"
    by (simp add: filteredAndSortedNotes_def mset_Array_sort p)
  have d: "mset (filteredAndSortedNotes ns type_workspace) + mset (filteredAndSortedNotes ns type_private)
      = mset ns"
    using filter_scopes_mset [of ns] by (simp add: filteredAndSortedNotes_def mset_Array_sort)
  have e: "sorted_wrt not_older (filteredAndSortedNotes ns ty)" if "list_all valid_date ns"
  proof -
    from that have "list_all valid_date (filter (access_filter ty) ns)"
      by (simp add: list_all_iff)
    then show ?thesis
      using newest_first_Array_sort [of "filter (access_filter ty) ns"]
      by (simp add: filteredAndSortedNotes_def)
  qed
  have "ns = [] \<Longrightarrow> filteredAndSortedNotes ns ty = []"
    by (simp add: filteredAndSortedNotes_def Array_sort_def)
  then have f: "displayed_notes (NoteList ns ty False) = filteredAndSortedNotes ns ty"
    by (auto simp: NoteList_def Let_def)
  have g: "NoteList ns ty True = NoteListSkeleton"
    by (simp add: NoteList_def Let_def)
  from a b c d e f g show ?thesis by blast
qed

text \<open>
  The claim as stated fails in two ways. A date beyond the range of \<^verbatim>\<open>Date\<close> makes the
  comparator \<^verbatim>\<open>NaN\<close>, and the note of time 10 stays in front of the note of time 20;
  and while loading, no note is displayed.
\<close>

theorem NoteList_partitions_by_access_counterexample:
  "filteredAndSortedNotes
      [\<lparr>note_id = NumId 1, title = ''a'', access = WORKSPACE, updatedDate = Some 10\<rparr>,
       \<lparr>note_id = NumId 2, title = ''b'', access = WORKSPACE, updatedDate = Some 8640000000000001\<rparr>,
       \<lparr>note_id = NumId 3, title = ''c'', access = WORKSPACE, updatedDate = Some 20\<rparr>]
      type_workspace
   = [\<lparr>note_id = NumId 1, title = ''a'', access = WORKSPACE, updatedDate = Some 10\<rparr>,
      \<lparr>note_id = NumId 2, title = ''b'', access = WORKSPACE, updatedDate = Some 8640000000000001\<rparr>,
      \<lparr>note_id = NumId 3, title = ''c'', access = WORKSPACE, updatedDate = Some 20\<rparr>]
 \<and> displayed_notes (NoteList
      [\<lparr>note_id = NumId 1, title = ''a'', access = WORKSPACE, updatedDate = Some 10\<rparr>]
      type_workspace True) = []"
  by (simp add: filteredAndSortedNotes_def Array_sort_def by_updatedDate_def getTime_def
      SortCompare_def NoteList_def)

theorem NoteList_partitions_by_access_witness:
  "list_all valid_date
      [\<lparr>note_id = NumId 1, title = ''a'', access = WORKSPACE, updatedDate = Some 10\<rparr>,
       \<lparr>note_id = NumId 2, title = ''b'', access = PRIVATE, updatedDate = Some 30\<rparr>,
       \<lparr>note_id = NumId 3, title = ''c'', access = SHARED, updatedDate = Some 20\<rparr>]
 \<and> sorted_wrt not_older (filteredAndSortedNotes
      [\<lparr>note_id = NumId 1, title = ''a'', access = WORKSPACE, updatedDate = Some 10\<rparr>,
       \<lparr>note_id = NumId 2, title = ''b'', access = PRIVATE, updatedDate = Some 30\<rparr>,
       \<lparr>note_id = NumId 3, title = ''c'', access = SHARED, updatedDate = Some 20\<rparr>]
      type_workspace)
 \<and> displayed_notes (NoteList
      [\<lparr>note_id = NumId 1, title = ''a'', access = WORKSPACE, updatedDate = Some 10\<rparr>,
       \<lparr>note_id = NumId 2, title = ''b'', access = PRIVATE, updatedDate = Some 30\<rparr>,
       \<lparr>note_id = NumId 3, title = ''c'', access = SHARED, updatedDate = Some 20\<rparr>]
      type_workspace False)
   = [\<lparr>note_id = NumId 3, title = ''c'', access = SHARED, updatedDate = Some 20\<rparr>,
      \<lparr>note_id = NumId 1, title = ''a'', access = WORKSPACE, updatedDate = Some 10\<rparr>]"
proof -
  have v: "list_all valid_date
      [\<lparr>note_id = NumId 1, title = ''a'', access = WORKSPACE, updatedDate = Some 10\<rparr>,
       \<lparr>note_id = NumId 2, title = ''b'', access = PRIVATE, updatedDate = Some 30\<rparr>,
       \<lparr>note_id = NumId 3, title = ''c'', access = SHARED, updatedDate = Some 20\<rparr>]"
    by (simp add: valid_date_def getTime_def)
  have d: "filteredAndSortedNotes
      [\<lparr>note_id = NumId 1, title = ''a'', access = WORKSPACE, updatedDate = Some 10\<rparr>,
       \<lparr>note_id = NumId 2, title = ''b'', access = PRIVATE, updatedDate = Some 30\<rparr>,
       \<lparr>note_id = NumId 3, title = ''c'', access = SHARED, updatedDate = Some 20\<rparr>]
      type_workspace
   = [\<lparr>note_id = NumId 3, title = ''c'', access = SHARED, updatedDate = Some 20\<rparr>,
      \<lparr>note_id = NumId 1, title = ''a'', access = WORKSPACE, updatedDate = Some 10\<rparr>]"
    by (simp add: filteredAndSortedNotes_def Array_sort_def by_updatedDate_def getTime_def
        SortCompare_def)
  show ?thesis
    using NoteList_partitions_by_access
      [of "\<lparr>note_id = NumId 1, title = ''a'', access = WORKSPACE, updatedDate = Some 10\<rparr>"
          "[\<lparr>note_id = NumId 1, title = ''a'', access = WORKSPACE, updatedDate = Some 10\<rparr>,
            \<lparr>note_id = NumId 2, title = ''b'', access = PRIVATE, updatedDate = Some 30\<rparr>,
            \<lparr>note_id = NumId 3, title = ''c'', access = SHARED, updatedDate = Some 20\<rparr>]"
          type_workspace]
      v d
    by simp
qed

text \<open>
  C9. With an empty notes array NoteList renders the skeleton, whether or not it is
  loading. The empty-state line is rendered exactly when the component is not loading,
  the array is non-empty and no note passes the access filter; it reads
  \<^verbatim>\<open>No workspace notes\<close> or \<^verbatim>\<open>No private notes\<close>.
\<close>

theorem NoteList_skeleton_when_empty:
  "NoteList [] ty loading = NoteListSkeleton
 \<and> ((\<exists>m. NoteList ns ty loading = EmptyMessage m) \<longleftrightarrow>
      \<not> loading \<and> ns \<noteq> [] \<and> filter (access_filter ty) ns = [])
 \<and> (\<not> loading \<and> ns \<noteq> [] \<and> filter (access_filter ty) ns = [] \<longrightarrow>
      NoteList ns ty loading =
        EmptyMessage (if ty = type_workspace then ''No workspace notes'' else ''No private notes''))"
proof -
  have "filteredAndSortedNotes ns ty = [] \<longleftrightarrow> filter (access_filter ty) ns = []"
    using mset_Array_sort [of by_updatedDate "filter (access_filter ty) ns"]
    unfolding filteredAndSortedNotes_def
    by (metis mset_zero_iff)
  then show ?thesis
    by (auto simp: NoteList_def Let_def)
qed

theorem NoteList_skeleton_when_empty_witness:
  "NoteList [] type_private False = NoteListSkeleton
 \<and> NoteList [\<lparr>note_id = NumId 7, title = ''Plan'', access = PRIVATE, updatedDate = Some 5\<rparr>]
      type_workspace False = EmptyMessage ''No workspace notes''"
  using NoteList_skeleton_when_empty
    [of type_workspace False
        "[\<lparr>note_id = NumId 7, title = ''Plan'', access = PRIVATE, updatedDate = Some 5\<rparr>]"]
    NoteList_skeleton_when_empty [of type_private False "[]"]
  by simp

section \<open>Properties of the debounced flush\<close>

lemma calls_append: "calls (xs @ ys) = calls xs @ calls ys"
  by (induction xs rule: calls.induct) simp_all

lemma calls_settle: "calls (settle r) = []"
  by (cases r) (simp_all add: settle_def catch_log_def)

lemma calls_title_promise: "calls (fst (title_promise options t r)) = []"
  by (simp add: title_promise_def split: sum.splits option.splits)

lemma calls_await_all: "calls (await_all (Some (title_promise options t r)) c b) = []"
proof -
  obtain cb p where tp: "title_promise options t r = (cb, p)" by (cases "title_promise options t r")
  then have "calls cb = []" using calls_title_promise [of options t r] by simp
  then show ?thesis unfolding tp
    by (cases b; cases c) (simp_all add: calls_append calls_settle)
qed

lemma calls_debouncedUpdate:
  "truthy_ID noteId \<Longrightarrow>
   calls (fst (debouncedUpdate options rs current (Some ed) noteId)) =
     (if newTitle_of ed \<noteq> current then [NoteService_updateNoteTitle noteId (newTitle_of ed)] else []) @
     [NoteService_updateNoteContent noteId (Some (getHTML ed)) (Some (getText ed))
        (Some (JSON_stringify (getJSON ed)))]"
  by (simp add: debouncedUpdate_def Let_def calls_append calls_await_all calls_settle)

lemma debouncedUpdate_guard:
  "\<not> truthy_ID noteId \<Longrightarrow>
   debouncedUpdate options rs current editor noteId =
     ([console_error ''Editor or noteId is undefined in debouncedUpdate''], Inr ())"
  by (simp add: debouncedUpdate_def split: option.splits)

lemma debouncedUpdate_no_editor:
  "debouncedUpdate options rs current None noteId =
     ([console_error ''Editor or noteId is undefined in debouncedUpdate''], Inr ())"
  by (simp add: debouncedUpdate_def)

lemma update_after_append: "update_after (xs @ ys) h = update_after ys (update_after xs h)"
  by (simp add: update_after_def)

lemma titleRef_apply_other:
  "\<not> assigns_titleRef e \<Longrightarrow> titleRef (apply_update_effect e h) = titleRef h"
  by (cases e) simp_all

lemma titleRef_kept:
  "list_all (\<lambda>e. \<not> assigns_titleRef e) es \<Longrightarrow> titleRef (update_after es h) = titleRef h"
proof (induction es arbitrary: h)
  case Nil
  show ?case by (simp add: update_after_def)
next
  case (Cons e es)
  have "update_after (e # es) h = update_after es (apply_update_effect e h)"
    by (simp add: update_after_def)
  with Cons show ?case by (simp add: titleRef_apply_other)
qed

lemma no_assign_settle: "list_all (\<lambda>e. \<not> assigns_titleRef e) (settle r)"
  by (cases r) (simp_all add: settle_def catch_log_def)

lemma no_assign_title_promise:
  "list_all (\<lambda>e. \<not> assigns_titleRef e) (fst (title_promise options t r))"
  by (simp add: title_promise_def split: sum.splits option.splits)

lemma no_assign_await_all:
  "list_all (\<lambda>e. \<not> assigns_titleRef e) (await_all (Some (title_promise options t r)) c b)"
proof -
  obtain cb p where tp: "title_promise options t r = (cb, p)" by (cases "title_promise options t r")
  then have "list_all (\<lambda>e. \<not> assigns_titleRef e) cb"
    using no_assign_title_promise [of options t r] by simp
  then show ?thesis unfolding tp
    by (cases b; cases c) (simp_all add: no_assign_settle)
qed

lemma titleRef_after_flush:
  "truthy_ID noteId \<Longrightarrow>
   titleRef (update_after (fst (debouncedUpdate options rs (titleRef h) (Some ed) noteId)) h)
     = newTitle_of ed"
proof (cases "newTitle_of ed = titleRef h")
  case True
  assume "truthy_ID noteId"
  then have "fst (debouncedUpdate options rs (titleRef h) (Some ed) noteId) =
      [setIsLoading True, setError None,
       Call (NoteService_updateNoteContent noteId (Some (getHTML ed)) (Some (getText ed))
         (Some (JSON_stringify (getJSON ed))))] @ settle (updateNoteContent_result rs)"
    using True by (simp add: debouncedUpdate_def Let_def)
  then show ?thesis using True
    by (simp add: update_after_append titleRef_kept no_assign_settle)
next
  case False
  assume "truthy_ID noteId"
  then have "fst (debouncedUpdate options rs (titleRef h) (Some ed) noteId) =
      [setIsLoading True, setError None, titleRef_assign (newTitle_of ed),
       Call (NoteService_updateNoteTitle noteId (newTitle_of ed)),
       Call (NoteService_updateNoteContent noteId (Some (getHTML ed)) (Some (getText ed))
         (Some (JSON_stringify (getJSON ed))))] @
      await_all (Some (title_promise options (newTitle_of ed) (updateNoteTitle_result rs)))
        (updateNoteContent_result rs) (title_settles_first rs)"
    using False by (simp add: debouncedUpdate_def Let_def)
  then have "titleRef (update_after (fst (debouncedUpdate options rs (titleRef h) (Some ed) noteId)) h)
      = titleRef (update_after [setIsLoading True, setError None, titleRef_assign (newTitle_of ed),
          Call (NoteService_updateNoteTitle noteId (newTitle_of ed)),
          Call (NoteService_updateNoteContent noteId (Some (getHTML ed)) (Some (getText ed))
            (Some (JSON_stringify (getJSON ed))))] h)"
    by (simp only: update_after_append titleRef_kept [OF no_assign_await_all])
  then show ?thesis by (simp add: update_after_def)
qed

lemma titleRef_after_guard:
  "\<not> truthy_ID noteId \<Longrightarrow>
   titleRef (update_after (fst (debouncedUpdate options rs current editor noteId)) h) = titleRef h"
  by (simp add: debouncedUpdate_guard update_after_def)

text \<open>
  C1 (as amended). \<^verbatim>\<open>titleRef\<close> starts as the empty string. A flush whose note id is
  truthy calls \<^verbatim>\<open>NoteService.updateNoteTitle\<close> exactly when the title extracted from the
  editor differs from \<^verbatim>\<open>titleRef\<close>, always calls \<^verbatim>\<open>NoteService.updateNoteContent\<close> with
  the editor's HTML, plain text and serialized JSON, and leaves the extracted title in
  \<^verbatim>\<open>titleRef\<close>. A flush whose note id is falsy calls no service method and leaves
  \<^verbatim>\<open>titleRef\<close> as it was.
\<close>

theorem flush_requests:
  "(truthy_ID noteId \<longrightarrow>
      calls (fst (debouncedUpdate options rs (titleRef h) (Some ed) noteId)) =
        (if newTitle_of ed \<noteq> titleRef h
         then [NoteService_updateNoteTitle noteId (newTitle_of ed)] else []) @
        [NoteService_updateNoteContent noteId (Some (getHTML ed)) (Some (getText ed))
           (Some (JSON_stringify (getJSON ed)))]
    \<and> titleRef (update_after (fst (debouncedUpdate options rs (titleRef h) (Some ed) noteId)) h)
        = newTitle_of ed)
 \<and> (\<not> truthy_ID noteId \<longrightarrow>
      calls (fst (debouncedUpdate options rs (titleRef h) (Some ed) noteId)) = []
    \<and> titleRef (update_after (fst (debouncedUpdate options rs (titleRef h) (Some ed) noteId)) h)
        = titleRef h)
 \<and> calls (fst (debouncedUpdate options rs (titleRef h) None noteId)) = []
 \<and> titleRef mount = []"
  using calls_debouncedUpdate [of noteId options rs "titleRef h" ed]
    titleRef_after_flush [of noteId options rs h ed]
    titleRef_after_guard [of noteId options rs "titleRef h" "Some ed" h]
    debouncedUpdate_guard [of noteId options rs "titleRef h" "Some ed"]
    debouncedUpdate_no_editor [of options rs "titleRef h" noteId]
  by (simp add: mount_def)

text \<open>
  The claim as stated fails on the guard: with note id \<^verbatim>\<open>0\<close> the title differs from
  the recorded one and yet the flush makes no call at all.
\<close>

theorem flush_requests_counterexample:
  "newTitle_of example_editor \<noteq> titleRef mount
 \<and> calls (fst (debouncedUpdate default_options resolved (titleRef mount) (Some example_editor) (NumId 0)))
     = []"
  by (simp add: example_editor_def newTitle_of_def mount_def debouncedUpdate_def)

theorem flush_requests_witness:
  "calls (fst (debouncedUpdate default_options resolved (titleRef mount) (Some example_editor) (NumId 4)))
     = [NoteService_updateNoteTitle (NumId 4) ''Plan'',
        NoteService_updateNoteContent (NumId 4) (Some ''<h1>Plan</h1>'') (Some ''Plan'') (Some ''{}'')]
 \<and> calls (fst (debouncedUpdate default_options resolved (titleRef mount) (Some example_editor) NoId))
     = []"
  using flush_requests [of "NumId 4" default_options resolved mount example_editor]
    flush_requests [of NoId default_options resolved mount example_editor]
  by (simp add: example_editor_def newTitle_of_def mount_def)







section \<open>Properties of the hook actions\<close>

lemma rethrow_pattern_resolved:
  "rethrow_pattern fallback None
     ([setIsLoading True, setError None, Call c] @ mid @ [setIsLoading False], Inr v)"
  by (simp add: rethrow_pattern_def sets_loading_first_def clears_loading_last_def state_updates_def)

lemma rethrow_pattern_rejected:
  "rethrow_pattern fallback (Some err)
     (first_do ([setIsLoading True, setError None, Call c] @ mid) (catch_rethrow fallback err))"
  by (simp add: rethrow_pattern_def sets_loading_first_def clears_loading_last_def state_updates_def
      first_do_def catch_rethrow_def records_failure_def)

lemma createNote_pattern:
  "rethrow_pattern ''Failed to create note'' (rejection r) (createNote p r)"
proof (cases r)
  case (Inl err)
  then show ?thesis
    using rethrow_pattern_rejected [of "''Failed to create note''" err _ "[]"]
    by (simp add: createNote_def rejection_def)
next
  case (Inr v)
  then show ?thesis
    using rethrow_pattern_resolved [of "''Failed to create note''" _ "[setNote (Some v)]" v]
    by (simp add: createNote_def rejection_def first_do_def)
qed

lemma updateNoteContent_pattern:
  "rethrow_pattern ''Failed to update note content'' (rejection r) (updateNoteContent p r)"
proof (cases r)
  case (Inl err)
  then show ?thesis
    using rethrow_pattern_rejected [of "''Failed to update note content''" err _ "[]"]
    by (simp add: updateNoteContent_def rejection_def)
next
  case (Inr v)
  then show ?thesis
    using rethrow_pattern_resolved [of "''Failed to update note content''" _ "[setNote (Some v)]" v]
    by (simp add: updateNoteContent_def rejection_def first_do_def)
qed

lemma deleteNote_pattern:
  "rethrow_pattern ''Failed to delete note'' (rejection r) (deleteNote n r)"
proof (cases r)
  case (Inl err)
  then show ?thesis
    using rethrow_pattern_rejected [of "''Failed to delete note''" err _ "[]"]
    by (simp add: deleteNote_def rejection_def)
next
  case (Inr v)
  then show ?thesis
    using rethrow_pattern_resolved [of "''Failed to delete note''" _ "[]" v]
    by (simp add: deleteNote_def rejection_def first_do_def)
qed

lemma makeNotePrivate_pattern:
  "rethrow_pattern ''Failed to make note private'' (rejection r) (makeNotePrivate n r)"
proof (cases r)
  case (Inl err)
  then show ?thesis
    using rethrow_pattern_rejected [of "''Failed to make note private''" err _ "[]"]
    by (simp add: makeNotePrivate_def rejection_def)
next
  case (Inr v)
  then show ?thesis
    using rethrow_pattern_resolved [of "''Failed to make note private''" _ "[]" v]
    by (simp add: makeNotePrivate_def rejection_def first_do_def)
qed

lemma updatePermissions_pattern:
  "rethrow_pattern ''Failed to update note permissions'' (rejection r) (updatePermissions p r)"
proof (cases r)
  case (Inl err)
  then show ?thesis
    using rethrow_pattern_rejected [of "''Failed to update note permissions''" err _ "[]"]
    by (simp add: updatePermissions_def rejection_def)
next
  case (Inr v)
  then show ?thesis
    using rethrow_pattern_resolved [of "''Failed to update note permissions''" _ "[]" v]
    by (simp add: updatePermissions_def rejection_def first_do_def)
qed

lemma duplicateNote_pattern:
  "rethrow_pattern ''Failed to duplicate note'' (duplicate_rejection got created copied)
     (duplicateNote n slug got created copied)"
  by (simp add: duplicateNote_def duplicate_rejection_def rejection_def rethrow_pattern_def
      sets_loading_first_def clears_loading_last_def state_updates_def first_do_def
      catch_rethrow_def records_failure_def split: sum.splits)

lemma state_updates_append: "state_updates (xs @ ys) = state_updates xs @ state_updates ys"
  by (simp add: state_updates_def)

lemma state_updates_settle:
  "state_updates (settle r) =
     (case r of Inl err \<Rightarrow> [setError (Some (Error (error_message err ''Failed to update note'')))]
              | Inr _ \<Rightarrow> []) @ [setIsLoading False]"
  by (cases r) (simp_all add: settle_def catch_log_def state_updates_def)

lemma state_updates_title_promise: "state_updates (fst (title_promise options t r)) = []"
  by (simp add: title_promise_def state_updates_def split: sum.splits option.splits)

lemma state_updates_await_all:
  "state_updates (await_all (Some (title_promise options t r)) c b) =
     state_updates (settle (awaited (Some (title_promise options t r)) c b))"
proof -
  obtain cb p where tp: "title_promise options t r = (cb, p)" by (cases "title_promise options t r")
  then have "state_updates cb = []" using state_updates_title_promise [of options t r] by simp
  then show ?thesis unfolding tp
    by (cases b; cases c) (simp_all add: state_updates_append)
qed

lemma state_updates_flush:
  assumes "truthy_ID noteId"
  shows "state_updates (fst (debouncedUpdate options rs current (Some ed) noteId)) =
     [setIsLoading True, setError None] @
     state_updates (settle (awaited
        (if newTitle_of ed \<noteq> current
         then Some (title_promise options (newTitle_of ed) (updateNoteTitle_result rs)) else None)
        (updateNoteContent_result rs) (title_settles_first rs)))"
proof (cases "newTitle_of ed = current")
  case True
  with assms have "fst (debouncedUpdate options rs current (Some ed) noteId) =
      [setIsLoading True, setError None,
       Call (NoteService_updateNoteContent noteId (Some (getHTML ed)) (Some (getText ed))
         (Some (JSON_stringify (getJSON ed))))] @ settle (updateNoteContent_result rs)"
    by (simp add: debouncedUpdate_def Let_def)
  then have "state_updates (fst (debouncedUpdate options rs current (Some ed) noteId)) =
      [setIsLoading True, setError None] @ state_updates (settle (updateNoteContent_result rs))"
    by (simp only: state_updates_append) (simp add: state_updates_def)
  with True show ?thesis by simp
next
  case False
  let ?p = "Some (title_promise options (newTitle_of ed) (updateNoteTitle_result rs))"
  from False assms have "fst (debouncedUpdate options rs current (Some ed) noteId) =
      [setIsLoading True, setError None, titleRef_assign (newTitle_of ed),
       Call (NoteService_updateNoteTitle noteId (newTitle_of ed)),
       Call (NoteService_updateNoteContent noteId (Some (getHTML ed)) (Some (getText ed))
         (Some (JSON_stringify (getJSON ed))))] @
      await_all ?p (updateNoteContent_result rs) (title_settles_first rs)"
    by (simp add: debouncedUpdate_def Let_def)
  then have "state_updates (fst (debouncedUpdate options rs current (Some ed) noteId)) =
      [setIsLoading True, setError None] @
      state_updates (await_all ?p (updateNoteContent_result rs) (title_settles_first rs))"
    by (simp only: state_updates_append) (simp add: state_updates_def)
  with False show ?thesis by (simp only: state_updates_await_all if_True simp_thms)
qed

lemma logs_await_all:
  "awaited p c b = Inl err \<Longrightarrow> console_error ''Error updating note:'' \<in> set (await_all p c b)"
proof (cases p)
  case None
  assume "awaited p c b = Inl err"
  with None show ?thesis by (simp add: settle_def catch_log_def)
next
  case (Some q)
  obtain cb t where q: "q = (cb, t)" by (cases q)
  assume "awaited p c b = Inl err"
  with Some q show ?thesis
    by (cases b; cases c; cases t) (simp_all add: settle_def catch_log_def)
qed

lemma flush_ends_with_await:
  "truthy_ID noteId \<Longrightarrow>
   set (await_all
          (if newTitle_of ed \<noteq> current
           then Some (title_promise options (newTitle_of ed) (updateNoteTitle_result rs)) else None)
          (updateNoteContent_result rs) (title_settles_first rs))
     \<subseteq> set (fst (debouncedUpdate options rs current (Some ed) noteId))"
  by (auto simp: debouncedUpdate_def Let_def)

lemma debouncedUpdate_pattern:
  assumes "truthy_ID noteId"
  shows "log_pattern ''Failed to update note''
     (rejection (awaited
        (if newTitle_of ed \<noteq> current
         then Some (title_promise options (newTitle_of ed) (updateNoteTitle_result rs)) else None)
        (updateNoteContent_result rs) (title_settles_first rs)))
     (debouncedUpdate options rs current (Some ed) noteId)"
proof -
  let ?out = "debouncedUpdate options rs current (Some ed) noteId"
  let ?aw = "awaited
        (if newTitle_of ed \<noteq> current
         then Some (title_promise options (newTitle_of ed) (updateNoteTitle_result rs)) else None)
        (updateNoteContent_result rs) (title_settles_first rs)"
  have first: "sets_loading_first (fst ?out)"
    using assms by (simp add: debouncedUpdate_def Let_def sets_loading_first_def)
  have some: "calls (fst ?out) \<noteq> []"
    using calls_debouncedUpdate [OF assms, of options rs current ed] by simp
  have su: "state_updates (fst ?out) = [setIsLoading True, setError None] @ state_updates (settle ?aw)"
    using state_updates_flush [OF assms] .
  have last: "clears_loading_last (fst ?out)"
    unfolding clears_loading_last_def su by (simp add: state_updates_settle)
  have res: "snd ?out = Inr ()"
    using assms by (simp add: debouncedUpdate_def Let_def)
  have rec: "records_failure ''Failed to update note'' err (fst ?out)" if "?aw = Inl err" for err
  proof -
    have "setError (Some (Error (error_message err ''Failed to update note''))) \<in> set (state_updates (fst ?out))"
      unfolding su using that by (simp add: state_updates_settle)
    then show ?thesis by (simp add: records_failure_def state_updates_def)
  qed
  have log: "console_error ''Error updating note:'' \<in> set (fst ?out)" if "?aw = Inl err" for err
    using logs_await_all [OF that] flush_ends_with_await [OF assms, of ed current options rs]
    by blast
  show ?thesis
    unfolding log_pattern_def using first some last res rec log
    by (cases ?aw) (simp_all add: rejection_def)
qed

lemma after_Cons: "after (e # es) st = after es (apply_effect e st)"
  by (simp add: after_def)

lemma apply_effect_other: "\<not> is_state_update e \<Longrightarrow> apply_effect e st = st"
  by (cases e) simp_all

lemma after_state_updates: "after es st = after (state_updates es) st"
proof (induction es arbitrary: st)
  case Nil
  show ?case by (simp add: state_updates_def)
next
  case (Cons e es)
  show ?case
  proof (cases "is_state_update e")
    case True
    then have "state_updates (e # es) = e # state_updates es" by (simp add: state_updates_def)
    then show ?thesis using Cons [of "apply_effect e st"] by (simp add: after_Cons)
  next
    case False
    then have "state_updates (e # es) = state_updates es" by (simp add: state_updates_def)
    then show ?thesis using Cons [of st] False by (simp add: after_Cons apply_effect_other)
  qed
qed

lemma clears_loading_last_after:
  assumes "clears_loading_last es"
  shows "isLoading (after es st) = False"
proof -
  from assms obtain us where "state_updates es = us @ [setIsLoading False]"
    unfolding clears_loading_last_def by (metis append_butlast_last_id)
  then have "after es st = after (us @ [setIsLoading False]) st"
    using after_state_updates [of es st] after_state_updates [of "us @ [setIsLoading False]" st]
    by (simp add: state_updates_def)
  then show ?thesis by (simp add: after_def)
qed

text \<open>
  C4 (as amended). Each action sets \<^verbatim>\<open>isLoading\<close> and clears \<^verbatim>\<open>error\<close> first, calls the
  service, on failure sets \<^verbatim>\<open>error\<close> to a new \<^verbatim>\<open>Error\<close> (with the \<^verbatim>\<open>NoteError\<close>'s message
  when there is one), and clears \<^verbatim>\<open>isLoading\<close> as its last update of a cell, so that
  \<^verbatim>\<open>isLoading\<close> ends false. \<^verbatim>\<open>createNote\<close>, \<^verbatim>\<open>updateNoteContent\<close>, \<^verbatim>\<open>deleteNote\<close>,
  \<^verbatim>\<open>makeNotePrivate\<close>, \<^verbatim>\<open>updatePermissions\<close> and \<^verbatim>\<open>duplicateNote\<close> rethrow that error. The
  debounced update of \<^verbatim>\<open>useUpdateNote\<close> does not: its promise always resolves, and with
  a falsy note id it only logs.
\<close>

theorem hook_actions_loading_pattern:
  "rethrow_pattern ''Failed to create note'' (rejection r1) (createNote p1 r1)
 \<and> rethrow_pattern ''Failed to update note content'' (rejection r2) (updateNoteContent p2 r2)
 \<and> rethrow_pattern ''Failed to delete note'' (rejection r3) (deleteNote n3 r3)
 \<and> rethrow_pattern ''Failed to make note private'' (rejection r4) (makeNotePrivate n4 r4)
 \<and> rethrow_pattern ''Failed to update note permissions'' (rejection r5) (updatePermissions p5 r5)
 \<and> rethrow_pattern ''Failed to duplicate note'' (duplicate_rejection got created copied)
      (duplicateNote n6 slug got created copied)
 \<and> (truthy_ID noteId \<longrightarrow>
      log_pattern ''Failed to update note''
        (rejection (awaited
           (if newTitle_of ed \<noteq> current
            then Some (title_promise options (newTitle_of ed) (updateNoteTitle_result rs)) else None)
           (updateNoteContent_result rs) (title_settles_first rs)))
        (debouncedUpdate options rs current (Some ed) noteId))
 \<and> (\<not> truthy_ID noteId \<longrightarrow>
      debouncedUpdate options rs current (Some ed) noteId =
        ([console_error ''Editor or noteId is undefined in debouncedUpdate''], Inr ()))
 \<and> debouncedUpdate options rs current None noteId =
      ([console_error ''Editor or noteId is undefined in debouncedUpdate''], Inr ())
 \<and> (clears_loading_last es \<longrightarrow> isLoading (after es st) = False)"
  using createNote_pattern [of r1 p1] updateNoteContent_pattern [of r2 p2]
    deleteNote_pattern [of r3 n3] makeNotePrivate_pattern [of r4 n4]
    updatePermissions_pattern [of r5 p5] duplicateNote_pattern [of got created copied n6 slug]
    debouncedUpdate_pattern [of noteId ed current options rs]
    debouncedUpdate_guard [of noteId options rs current "Some ed"]
    debouncedUpdate_no_editor [of options rs current noteId]
    clears_loading_last_after [of es st]
  by blast

text \<open>
  The claim as stated fails for the debounced update: the content request is rejected,
  the error is recorded, and the promise resolves.
\<close>

theorem hook_actions_rethrow_counterexample:
  "setError (Some (Error ''Forbidden''))
     \<in> set (fst (debouncedUpdate default_options content_rejected [] (Some example_editor) (NumId 4)))
 \<and> snd (debouncedUpdate default_options content_rejected [] (Some example_editor) (NumId 4)) = Inr ()"
  by (simp add: debouncedUpdate_def Let_def example_editor_def newTitle_of_def content_rejected_def
      default_options_def title_promise_def settle_def catch_log_def)

theorem hook_actions_loading_pattern_witness:
  "snd (deleteNote (NumId 4) (Inl (NoteError ''Forbidden''))) = Inl (Error ''Forbidden'')
 \<and> snd (makeNotePrivate (NumId 4) (Inl NonError)) = Inl (Error ''Failed to make note private'')
 \<and> snd (debouncedUpdate default_options content_rejected [] (Some example_editor) (NumId 4)) = Inr ()
 \<and> fst (debouncedUpdate default_options content_rejected [] (Some example_editor) NoId)
      = [console_error ''Editor or noteId is undefined in debouncedUpdate'']
 \<and> isLoading (after (fst (deleteNote (NumId 4) (Inl (NoteError ''Forbidden''))))
      \<lparr>isLoading = True, error = None\<rparr>) = False"
  using hook_actions_loading_pattern
    [of "Inr \<lparr>note_id = NumId 1, title = ''a'', access = PRIVATE, updatedDate = Some 0\<rparr>"
        "\<lparr>input_title = ''a'', grouping = PRIVATE, organizationSlug = ''lab''\<rparr>"
        "Inr \<lparr>content_src = ''s'', content_text = ''t'', content_json = ''{}''\<rparr>"
        "\<lparr>input_note = NumId 1, fullSrc = None, input_plainText = None, fullJson = None\<rparr>"
        "Inl (NoteError ''Forbidden'')" "NumId 4"
        "Inl NonError" "NumId 4"
        "Inr True"
        "\<lparr>input_noteId = NumId 1, organizationId = NumId 2, input_accessType = None\<rparr>"
        "Inl NonError" "Inl NonError" "Inl NonError" "''1''" "''lab''"
        "NumId 4" example_editor "[]" default_options content_rejected
        "fst (deleteNote (NumId 4) (Inl (NoteError ''Forbidden'')))"
        "\<lparr>isLoading = True, error = None\<rparr>"]
    hook_actions_loading_pattern
    [of "Inr \<lparr>note_id = NumId 1, title = ''a'', access = PRIVATE, updatedDate = Some 0\<rparr>"
        "\<lparr>input_title = ''a'', grouping = PRIVATE, organizationSlug = ''lab''\<rparr>"
        "Inr \<lparr>content_src = ''s'', content_text = ''t'', content_json = ''{}''\<rparr>"
        "\<lparr>input_note = NumId 1, fullSrc = None, input_plainText = None, fullJson = None\<rparr>"
        "Inl (NoteError ''Forbidden'')" "NumId 4"
        "Inl NonError" "NumId 4"
        "Inr True"
        "\<lparr>input_noteId = NumId 1, organizationId = NumId 2, input_accessType = None\<rparr>"
        "Inl NonError" "Inl NonError" "Inl NonError" "''1''" "''lab''"
        "NoId" example_editor "[]" default_options content_rejected
        "[]::unit effect list"
        "\<lparr>isLoading = True, error = None\<rparr>"]
  by (simp add: rethrow_pattern_def log_pattern_def rejection_def)


section \<open>Properties of the debounce\<close>

lemma elapse_idle: "timer h = None \<Longrightarrow> elapse options service now h = (h, [])"
  by (simp add: elapse_def)

lemma elapse_early:
  "timer h = Some (ed, n, called) \<Longrightarrow> now < called + wait options \<Longrightarrow>
   elapse options service now h = (h, [])"
  by (simp add: elapse_def)

lemma elapse_due:
  "timer h = Some (ed, n, called) \<Longrightarrow> called + wait options \<le> now \<Longrightarrow>
   elapse options service now h =
     (update_after (fst (debouncedUpdate options (service (called + wait options)) (titleRef h)
         (Some ed) n)) (h\<lparr>timer := None\<rparr>),
      [(called + wait options,
        fst (debouncedUpdate options (service (called + wait options)) (titleRef h) (Some ed) n))])"
  by (simp add: elapse_def Let_def)

lemma timer_apply: "timer (apply_update_effect e h) = timer h"
  by (cases e) simp_all

lemma timer_update_after: "timer (update_after es h) = timer h"
proof (induction es arbitrary: h)
  case Nil
  show ?case by (simp add: update_after_def)
next
  case (Cons e es)
  have "update_after (e # es) h = update_after es (apply_update_effect e h)"
    by (simp add: update_after_def)
  with Cons show ?case by (simp add: timer_apply)
qed

lemma elapse_times: "list_all (\<lambda>(t, es). t \<le> now) (snd (elapse options service now h))"
  by (simp add: elapse_def Let_def split: option.splits prod.splits)

lemma run_burst:
  "timer h = Some (pending_of c0) \<Longrightarrow> burst (wait options) (fst c0) cs \<Longrightarrow>
   run options service (map as_input cs) h = (h\<lparr>timer := Some (pending_of (last (c0 # cs)))\<rparr>, [])"
proof (induction cs arbitrary: h c0)
  case Nil
  then show ?case by simp
next
  case (Cons c cs)
  obtain now ed n where c: "c = (now, ed, n)" by (cases c)
  obtain t0 e0 n0 where c0: "c0 = (t0, e0, n0)" by (cases c0)
  from Cons.prems c c0 have early: "now < t0 + wait options" and rest: "burst (wait options) now cs"
    by simp_all
  from Cons.prems(1) c0 have "timer h = Some (e0, n0, t0)" by (simp add: pending_of_def)
  then have el: "elapse options service now h = (h, [])"
    using early by (rule elapse_early)
  let ?h2 = "h\<lparr>timer := Some (pending_of c)\<rparr>"
  have "timer ?h2 = Some (pending_of c)" by simp
  then have ih: "run options service (map as_input cs) ?h2 =
      (?h2\<lparr>timer := Some (pending_of (last (c # cs)))\<rparr>, [])"
    using Cons.IH [of ?h2 c] rest c by simp
  have inp: "as_input c = (now, update (Some ed) n)"
    by (simp add: as_input_def c)
  have upd: "updateNote n now (Some ed) h = ?h2"
    by (simp add: updateNote_def pending_of_def c)
  have l: "last (c0 # c # cs) = last (c # cs)" by simp
  have "run options service (as_input c # map as_input cs) h =
      (?h2\<lparr>timer := Some (pending_of (last (c # cs)))\<rparr>, [])"
    unfolding inp by (simp only: run.simps el Let_def prod.case input.case upd ih append_Nil)
  then show ?case
    unfolding l by simp
qed

lemma run_snoc_unmount:
  "run options service (inputs @ [(u, unmount)]) h =
     (cancel (fst (run_until options service inputs u h)),
      snd (run_until options service inputs u h))"
proof (induction inputs arbitrary: h)
  case Nil
  show ?case by (simp add: run_until_def split: prod.splits)
next
  case (Cons i inputs)
  obtain now inp where i: "i = (now, inp)" by (cases i)
  show ?case
    unfolding i by (simp add: run_until_def Cons split: prod.splits)
qed

lemma run_append:
  "run options service (xs @ ys) h =
     (fst (run options service ys (fst (run options service xs h))),
      snd (run options service xs h) @ snd (run options service ys (fst (run options service xs h))))"
proof (induction xs arbitrary: h)
  case Nil
  show ?case by simp
next
  case (Cons i xs)
  obtain now inp where i: "i = (now, inp)" by (cases i)
  show ?case
    unfolding i by (simp add: Cons split: prod.splits)
qed

lemma cancel_idle: "timer h = None \<Longrightarrow> cancel h = h"
  by (simp add: cancel_def)

lemma run_idle:
  "timer h = None \<Longrightarrow> list_all (\<lambda>(at, i). \<not> arms i) rest \<Longrightarrow>
   run options service rest h = (h, [])"
proof (induction rest)
  case Nil
  show ?case by simp
next
  case (Cons r rest)
  obtain now inp where r: "r = (now, inp)" by (cases r)
  from Cons.prems r have quiet: "\<not> arms inp" by simp
  have same: "(case inp of update editor noteId \<Rightarrow> updateNote noteId now editor h
                         | unmount \<Rightarrow> cancel h) = h"
  proof (cases inp)
    case (update editor noteId)
    with quiet have "editor = None" by (cases editor) simp_all
    with update show ?thesis by (simp add: updateNote_def)
  next
    case unmount
    then show ?thesis using Cons.prems(1) by (simp add: cancel_idle)
  qed
  have "run options service rest h = (h, [])"
    using Cons by simp
  then show ?case
    unfolding r using elapse_idle [OF Cons.prems(1), of options service now] same by simp
qed

lemma run_until_unmount:
  assumes "list_all (\<lambda>(at, i). \<not> arms i) rest"
  shows "run_until options service (inputs @ (u, unmount) # rest) horizon h =
     (cancel (fst (run_until options service inputs u h)),
      snd (run_until options service inputs u h))"
proof -
  let ?c = "cancel (fst (run_until options service inputs u h))"
  have idle: "timer ?c = None" by (simp add: cancel_def)
  let ?X = "inputs @ [(u, unmount)]"
  have rx: "run options service ?X h = (?c, snd (run_until options service inputs u h))"
    by (rule run_snoc_unmount)
  have "run options service (?X @ rest) h =
      (fst (run options service rest (fst (run options service ?X h))),
       snd (run options service ?X h) @
       snd (run options service rest (fst (run options service ?X h))))"
    by (rule run_append)
  then have "run options service (?X @ rest) h = (?c, snd (run_until options service inputs u h))"
    unfolding rx by (simp add: run_idle [OF idle assms])
  then have "run options service (inputs @ (u, unmount) # rest) h =
      (?c, snd (run_until options service inputs u h))"
    by simp
  then show ?thesis
    by (simp add: run_until_def [of options service "inputs @ (u, unmount) # rest"]
        elapse_idle [OF idle])
qed

text \<open>
  C2 (as amended). A burst of calls with an editor, starting with no invocation
  pending, each call made before the wait started by the previous one is over. If
  nothing else happens to the hook, nothing runs before the wait after the last call is
  over, and from then on the trace holds exactly one run of the debounced update, at
  that moment, with the editor and note id of the last call. When that note id is
  truthy the run is the one network flush of the burst; when it is falsy the run only
  logs and no service call is made. Afterwards no invocation is pending, so whatever
  the service answered, time passing brings no further flush. An unmount before the
  wait is over leaves the burst without any run, and a call without an editor changes
  nothing.
\<close>

theorem burst_flushes_once:
  assumes "timer h = None"
      and "burst (wait options) t cs"
      and "last ((t, ed, n) # cs) = (t_last, ed_last, n_last)"
  shows "(horizon < t_last + wait options \<longrightarrow>
            snd (run_until options service (map as_input ((t, ed, n) # cs)) horizon h) = [])
       \<and> (t_last + wait options \<le> horizon \<longrightarrow>
            snd (run_until options service (map as_input ((t, ed, n) # cs)) horizon h) =
              [(t_last + wait options,
                fst (debouncedUpdate options (service (t_last + wait options)) (titleRef h)
                       (Some ed_last) n_last))]
          \<and> network_calls
                (snd (run_until options service (map as_input ((t, ed, n) # cs)) horizon h)) =
              (if truthy_ID n_last
               then (if newTitle_of ed_last \<noteq> titleRef h
                     then [NoteService_updateNoteTitle n_last (newTitle_of ed_last)] else []) @
                    [NoteService_updateNoteContent n_last (Some (getHTML ed_last))
                       (Some (getText ed_last)) (Some (JSON_stringify (getJSON ed_last)))]
               else [])
          \<and> (\<not> truthy_ID n_last \<longrightarrow>
                snd (run_until options service (map as_input ((t, ed, n) # cs)) horizon h) =
                  [(t_last + wait options,
                    [console_error ''Editor or noteId is undefined in debouncedUpdate''])])
          \<and> timer (fst (run_until options service (map as_input ((t, ed, n) # cs)) horizon h)) = None
          \<and> (\<forall>later.
                snd (elapse options service later
                  (fst (run_until options service (map as_input ((t, ed, n) # cs)) horizon h))) = []))
       \<and> (u < t_last + wait options \<longrightarrow>
            snd (run_until options service (map as_input ((t, ed, n) # cs) @ [(u, unmount)])
                   horizon h) = [])
       \<and> updateNote n' now None h' = h'
       \<and> wait options = (case debounceMs options of None \<Rightarrow> 2000 | Some ms \<Rightarrow> ms)"
proof -
  let ?h1 = "h\<lparr>timer := Some (pending_of (t, ed, n))\<rparr>"
  let ?h2 = "h\<lparr>timer := Some (ed_last, n_last, t_last)\<rparr>"
  let ?es = "fst (debouncedUpdate options (service (t_last + wait options)) (titleRef h)
                    (Some ed_last) n_last)"
  have first: "elapse options service t h = (h, [])"
    using assms(1) by (rule elapse_idle)
  have "run options service (map as_input cs) ?h1 =
      (?h1\<lparr>timer := Some (pending_of (last ((t, ed, n) # cs)))\<rparr>, [])"
    using run_burst [of ?h1 "(t, ed, n)" options cs service] assms(2) by simp
  then have ih: "run options service (map as_input cs) ?h1 = (?h2, [])"
    using assms(3) by (simp add: pending_of_def)
  have inp: "as_input (t, ed, n) = (t, update (Some ed) n)"
    by (simp add: as_input_def)
  have upd: "updateNote n t (Some ed) h = ?h1"
    by (simp add: updateNote_def pending_of_def)
  have "run options service (as_input (t, ed, n) # map as_input cs) h = (?h2, [])"
    unfolding inp by (simp only: run.simps first Let_def prod.case input.case upd ih append_Nil)
  then have r: "run options service (map as_input ((t, ed, n) # cs)) h = (?h2, [])"
    by simp
  have t2: "timer ?h2 = Some (ed_last, n_last, t_last)" by simp
  have early: "snd (run_until options service (map as_input ((t, ed, n) # cs)) hz h) = []"
    if "hz < t_last + wait options" for hz
    using elapse_early [OF t2 that] r by (simp add: run_until_def)
  have due: "run_until options service (map as_input ((t, ed, n) # cs)) horizon h =
      (update_after ?es (h\<lparr>timer := None\<rparr>), [(t_last + wait options, ?es)])"
    if "t_last + wait options \<le> horizon"
    using elapse_due [OF t2 that, of service] r by (simp add: run_until_def)
  have net: "network_calls [(t_last + wait options, ?es)] =
      (if truthy_ID n_last
       then (if newTitle_of ed_last \<noteq> titleRef h
             then [NoteService_updateNoteTitle n_last (newTitle_of ed_last)] else []) @
            [NoteService_updateNoteContent n_last (Some (getHTML ed_last))
               (Some (getText ed_last)) (Some (JSON_stringify (getJSON ed_last)))]
       else [])"
    using calls_debouncedUpdate [of n_last options "service (t_last + wait options)" "titleRef h" ed_last]
      debouncedUpdate_guard [of n_last options "service (t_last + wait options)" "titleRef h"
        "Some ed_last"]
    by (cases "truthy_ID n_last") (simp_all add: network_calls_def)
  have guard: "\<not> truthy_ID n_last \<Longrightarrow>
      ?es = [console_error ''Editor or noteId is undefined in debouncedUpdate'']"
    using debouncedUpdate_guard [of n_last options "service (t_last + wait options)" "titleRef h"
        "Some ed_last"]
    by simp
  have unm: "snd (run_until options service (map as_input ((t, ed, n) # cs) @ [(u, unmount)])
                   horizon h) = []"
    if "u < t_last + wait options"
    using run_until_unmount [of "[]" options service "map as_input ((t, ed, n) # cs)" u horizon h]
      early [OF that]
    by simp
  have none: "updateNote n' now None h' = h'"
    by (simp add: updateNote_def)
  have w: "wait options = (case debounceMs options of None \<Rightarrow> 2000 | Some ms \<Rightarrow> ms)"
    by (simp add: wait_def)
  have main: "t_last + wait options \<le> horizon \<Longrightarrow>
      snd (run_until options service (map as_input ((t, ed, n) # cs)) horizon h) =
        [(t_last + wait options, ?es)]
    \<and> timer (fst (run_until options service (map as_input ((t, ed, n) # cs)) horizon h)) = None"
    using due by (simp add: timer_update_after)
  show ?thesis
    using early [of horizon] main net guard unm none w
    by (simp add: elapse_idle)
qed

text \<open>
  The claim as stated fails in three ways: a hook whose note id is \<^verbatim>\<open>0\<close> makes no
  service call, however long after the burst; a burst followed by the unmount inside
  the window has no run at all; and when the last call of the burst has no editor, the
  run comes at the edge of the call before it.
\<close>

theorem burst_flushes_once_counterexample:
  "network_calls
     (snd (run_until default_options (\<lambda>_. resolved)
             (map as_input [(0, example_editor, NumId 0), (1500, revised_editor, NumId 0)])
             10000 mount)) = []
 \<and> snd (run_until default_options (\<lambda>_. resolved)
          [(0, update (Some example_editor) (NumId 4)), (1500, update (Some revised_editor) (NumId 4)),
           (2000, unmount)]
          10000 mount) = []
 \<and> map fst (snd (run_until default_options (\<lambda>_. resolved)
          [(0, update (Some example_editor) (NumId 4)), (1500, update None (NumId 4))]
          10000 mount)) = [2000]"
  by (simp add: network_calls_def run_until_def as_input_def elapse_def updateNote_def mount_def
      wait_def default_options_def debouncedUpdate_def cancel_def Let_def)

theorem burst_flushes_once_witness:
  "snd (run_until default_options (\<lambda>_. resolved)
         (map as_input [(0, example_editor, NumId 4), (1500, revised_editor, NumId 4)]) 10000 mount)
   = [(3500,
       [setIsLoading True, setError None, titleRef_assign ''Plan B'',
        Call (NoteService_updateNoteTitle (NumId 4) ''Plan B''),
        Call (NoteService_updateNoteContent (NumId 4) (Some ''<h1>Plan B</h1>'') (Some ''Plan B'')
                (Some ''[2]'')),
        setIsLoading False])]"
  using burst_flushes_once
    [where h = mount and options = default_options and t = 0
       and cs = "[(1500, revised_editor, NumId 4)]" and ed = example_editor and n = "NumId 4"
       and t_last = 1500 and ed_last = revised_editor and n_last = "NumId 4" and horizon = 10000
       and service = "\<lambda>_. resolved"]
  by (simp add: mount_def wait_def default_options_def debouncedUpdate_def revised_editor_def
      newTitle_of_def resolved_def title_promise_def settle_def Let_def)

text \<open>
  C3 (as amended). The unmount cancels the pending invocation: afterwards none is
  pending and time passing brings no flush. A run in which the update function is not
  called with an editor after the unmount at time \<^verbatim>\<open>u\<close> has, at any later horizon, the
  trace it had at \<^verbatim>\<open>u\<close>, and every flush in it happened by then. A call with an editor
  after the unmount starts the timer again.
\<close>

theorem unmount_cancels_pending_flush:
  "timer (cancel h) = None
 \<and> elapse options service later (cancel h) = (cancel h, [])
 \<and> (list_all (\<lambda>(at, i). \<not> arms i) rest \<longrightarrow>
      run_until options service (inputs @ (u, unmount) # rest) horizon h =
        (cancel (fst (run_until options service inputs u h)),
         snd (run_until options service inputs u h)))
 \<and> list_all (\<lambda>(t, es). t \<le> u) (snd (elapse options service u h))
 \<and> timer (updateNote n now (Some ed) (cancel h)) = Some (ed, n, now)"
proof -
  have c: "timer (cancel h) = None" by (simp add: cancel_def)
  have e: "elapse options service later (cancel h) = (cancel h, [])"
    using elapse_idle [OF c] .
  have a: "timer (updateNote n now (Some ed) (cancel h)) = Some (ed, n, now)"
    by (simp add: updateNote_def)
  show ?thesis
    using c e a elapse_times [of u options service h]
      run_until_unmount [of rest options service inputs u horizon h]
    by blast
qed

text \<open>
  The claim as stated fails when the update function is called after the unmount: the
  call at 1500 follows the unmount at 1000, and its flush makes both requests at 3500.
\<close>

theorem unmount_cancels_pending_flush_counterexample:
  "map fst (snd (run_until default_options (\<lambda>_. resolved)
       [(0, update (Some example_editor) (NumId 4)), (1000, unmount),
        (1500, update (Some example_editor) (NumId 4))]
       10000 mount)) = [3500]
 \<and> network_calls (snd (run_until default_options (\<lambda>_. resolved)
       [(0, update (Some example_editor) (NumId 4)), (1000, unmount),
        (1500, update (Some example_editor) (NumId 4))]
       10000 mount))
   = [NoteService_updateNoteTitle (NumId 4) ''Plan'',
      NoteService_updateNoteContent (NumId 4) (Some ''<h1>Plan</h1>'') (Some ''Plan'') (Some ''{}'')]"
  by (simp add: network_calls_def run_until_def elapse_def updateNote_def mount_def cancel_def
      wait_def default_options_def debouncedUpdate_def example_editor_def newTitle_of_def
      resolved_def title_promise_def settle_def Let_def)

theorem unmount_cancels_pending_flush_witness:
  "list_all (\<lambda>(at, i). \<not> arms i) [(1200, update None (NumId 4)), (1300, unmount)]
 \<and> snd (run_until default_options (\<lambda>_. resolved)
         ([(0, update (Some example_editor) (NumId 4))] @
          (1000, unmount) # [(1200, update None (NumId 4)), (1300, unmount)]) 10000 mount) = []"
proof -
  have q: "list_all (\<lambda>(at, i). \<not> arms i) [(1200, update None (NumId 4)), (1300, unmount)]"
    by simp
  have "snd (run_until default_options (\<lambda>_. resolved)
         [(0, update (Some example_editor) (NumId 4))] 1000 mount) = []"
    by (simp add: run_until_def elapse_def mount_def updateNote_def wait_def default_options_def)
  then show ?thesis
    using unmount_cancels_pending_flush
      [where options = default_options and service = "\<lambda>_. resolved"
         and inputs = "[(0, update (Some example_editor) (NumId 4))]" and u = 1000
         and horizon = 10000 and h = mount
         and rest = "[(1200, update None (NumId 4)), (1300, unmount)]"]
      q
    by simp
qed


section \<open>Properties of the hooks' return values\<close>

lemma calls_first_do: "calls (fst (first_do es k)) = calls es @ calls (fst k)"
  by (simp add: first_do_def calls_append)

lemma calls_catch_rethrow: "calls (fst (catch_rethrow fallback err)) = []"
  by (simp add: catch_rethrow_def)

lemma calls_fetch: "calls (fst (fetch nid r)) = [NoteService_getNote nid]"
  by (cases r) (simp_all add: fetch_def)

lemma calls_createNote:
  "calls (fst (createNote p r)) =
     [NoteService_createNote (input_title p) (grouping p) (organizationSlug p)]"
  by (cases r) (simp_all add: createNote_def calls_first_do calls_catch_rethrow)

lemma calls_updateNoteContent:
  "calls (fst (updateNoteContent p r)) =
     [NoteService_updateNoteContent (input_note p) (fullSrc p) (input_plainText p) (fullJson p)]"
  by (cases r) (simp_all add: updateNoteContent_def calls_first_do calls_catch_rethrow)

lemma calls_deleteNote: "calls (fst (deleteNote n r)) = [NoteService_deleteNote n]"
  by (cases r) (simp_all add: deleteNote_def calls_first_do calls_catch_rethrow)

lemma calls_makeNotePrivate: "calls (fst (makeNotePrivate n r)) = [NoteService_makePrivate n]"
  by (cases r) (simp_all add: makeNotePrivate_def calls_first_do calls_catch_rethrow)

lemma calls_updatePermissions:
  "calls (fst (updatePermissions p r)) =
     [NoteService_updateNotePermissions (input_noteId p) (organizationId p) (input_accessType p)]"
  by (cases r) (simp_all add: updatePermissions_def calls_first_do calls_catch_rethrow)

lemma calls_duplicateNote:
  "calls (fst (duplicateNote n slug (Inr original) (Inr new) copied)) =
     [NoteService_getNote n,
      NoteService_createNote (title original @ '' (Copy)'') (access original) slug] @
     (if truthy (content original) \<or> truthy (contentJson original)
      then [NoteService_updateNoteContent (note_id new) (content original) (plainText original)
              (contentJson original)]
      else [])"
  by (cases copied) (simp_all add: duplicateNote_def calls_first_do calls_catch_rethrow)

lemma calls_duplicateNote_first:
  "take 1 (calls (fst (duplicateNote n slug got created copied))) = [NoteService_getNote n]"
  by (simp add: duplicateNote_def calls_first_do)

text \<open>
  C6 (as amended). Each of the eight hooks returns a pair: a state with \<^verbatim>\<open>isLoading\<close>
  and \<^verbatim>\<open>error\<close> (and \<^verbatim>\<open>note\<close> where the hook has one) read from its cells, and one
  action. The actions of the seven hooks other than \<^verbatim>\<open>useUpdateNote\<close> make the hook's
  service calls. The action of \<^verbatim>\<open>useUpdateNote\<close> makes none itself: called with an editor
  it starts the debounce timer, whose expiry runs the flush, and the flush makes the
  calls when the note id is truthy and none when it is falsy; called without an editor
  it changes nothing.
\<close>

theorem hooks_return_state_and_action:
  "useNote nid c1 = (\<lparr>isLoading = isLoading c1, error = error c1, note' = note' c1\<rparr>, fetch nid)
 \<and> calls (fst (fetch nid r1)) = [NoteService_getNote nid]
 \<and> useCreateNote c2 = (\<lparr>isLoading = isLoading c2, error = error c2, note' = note' c2\<rparr>, createNote)
 \<and> calls (fst (createNote p2 r2)) =
      [NoteService_createNote (input_title p2) (grouping p2) (organizationSlug p2)]
 \<and> useNoteContent c3 =
      (\<lparr>isLoading = isLoading c3, error = error c3, note' = note' c3\<rparr>, updateNoteContent)
 \<and> calls (fst (updateNoteContent p3 r3)) =
      [NoteService_updateNoteContent (input_note p3) (fullSrc p3) (input_plainText p3) (fullJson p3)]
 \<and> useDeleteNote c4 = (\<lparr>isLoading = isLoading c4, error = error c4\<rparr>, deleteNote)
 \<and> calls (fst (deleteNote n4 r4)) = [NoteService_deleteNote n4]
 \<and> useMakeNotePrivate c5 = (\<lparr>isLoading = isLoading c5, error = error c5\<rparr>, makeNotePrivate)
 \<and> calls (fst (makeNotePrivate n5 r5)) = [NoteService_makePrivate n5]
 \<and> useUpdateNotePermissions c6 = (\<lparr>isLoading = isLoading c6, error = error c6\<rparr>, updatePermissions)
 \<and> calls (fst (updatePermissions p6 r6)) =
      [NoteService_updateNotePermissions (input_noteId p6) (organizationId p6) (input_accessType p6)]
 \<and> useDuplicateNote c7 = (\<lparr>isLoading = isLoading c7, error = error c7\<rparr>, duplicateNote)
 \<and> take 1 (calls (fst (duplicateNote n7 slug got created copied))) = [NoteService_getNote n7]
 \<and> calls (fst (duplicateNote n7 slug (Inr original) (Inr new) copied)) =
      [NoteService_getNote n7,
       NoteService_createNote (title original @ '' (Copy)'') (access original) slug] @
      (if truthy (content original) \<or> truthy (contentJson original)
       then [NoteService_updateNoteContent (note_id new) (content original) (plainText original)
               (contentJson original)]
       else [])
 \<and> useUpdateNote noteId h = (\<lparr>isLoading = isLoading h, error = error h\<rparr>, updateNote noteId)
 \<and> snd (elapse options service (now + wait options) (updateNote noteId now (Some ed) h)) =
      [(now + wait options,
        fst (debouncedUpdate options (service (now + wait options)) (titleRef h) (Some ed) noteId))]
 \<and> calls (fst (debouncedUpdate options rs (titleRef h) (Some ed) noteId)) =
      (if truthy_ID noteId
       then (if newTitle_of ed \<noteq> titleRef h
             then [NoteService_updateNoteTitle noteId (newTitle_of ed)] else []) @
            [NoteService_updateNoteContent noteId (Some (getHTML ed)) (Some (getText ed))
               (Some (JSON_stringify (getJSON ed)))]
       else [])
 \<and> updateNote noteId now None h = h"
proof -
  have t: "timer (updateNote noteId now (Some ed) h) = Some (ed, noteId, now)"
    by (simp add: updateNote_def)
  have r: "titleRef (updateNote noteId now (Some ed) h) = titleRef h"
    by (simp add: updateNote_def)
  have e: "snd (elapse options service (now + wait options) (updateNote noteId now (Some ed) h)) =
      [(now + wait options,
        fst (debouncedUpdate options (service (now + wait options)) (titleRef h) (Some ed) noteId))]"
    using elapse_due [OF t, of options "now + wait options" service] by (simp add: r)
  have d: "calls (fst (debouncedUpdate options rs (titleRef h) (Some ed) noteId)) =
      (if truthy_ID noteId
       then (if newTitle_of ed \<noteq> titleRef h
             then [NoteService_updateNoteTitle noteId (newTitle_of ed)] else []) @
            [NoteService_updateNoteContent noteId (Some (getHTML ed)) (Some (getText ed))
               (Some (JSON_stringify (getJSON ed)))]
       else [])"
    using calls_debouncedUpdate [of noteId options rs "titleRef h" ed]
      debouncedUpdate_guard [of noteId options rs "titleRef h" "Some ed"]
    by (cases "truthy_ID noteId") simp_all
  have n: "updateNote noteId now None h = h"
    by (simp add: updateNote_def)
  show ?thesis
    using e d n calls_duplicateNote [of n7 slug original new copied]
      calls_duplicateNote_first [of n7 slug got created copied]
    by (simp add: useNote_def useCreateNote_def useNoteContent_def useDeleteNote_def
        useMakeNotePrivate_def useUpdateNotePermissions_def useDuplicateNote_def useUpdateNote_def
        calls_fetch calls_createNote calls_updateNoteContent calls_deleteNote
        calls_makeNotePrivate calls_updatePermissions)
qed

text \<open>
  The claim as stated fails for \<^verbatim>\<open>useUpdateNote\<close>: with note id \<^verbatim>\<open>0\<close> the action and the
  flush it schedules make no service call, and without an editor the action does not
  even start the timer.
\<close>

theorem hooks_return_state_and_action_counterexample:
  "network_calls
     (snd (elapse default_options (\<lambda>_. resolved) 10000
             (snd (useUpdateNote (NumId 0) mount) 0 (Some example_editor) mount))) = []
 \<and> snd (elapse default_options (\<lambda>_. resolved) 10000
          (snd (useUpdateNote (NumId 4) mount) 0 None mount)) = []"
  by (simp add: network_calls_def useUpdateNote_def elapse_def updateNote_def mount_def wait_def
      default_options_def debouncedUpdate_def Let_def)

theorem hooks_return_state_and_action_witness:
  "calls (fst (snd (useDeleteNote \<lparr>isLoading = False, error = None\<rparr>) (NumId 4) (Inl NonError)))
     = [NoteService_deleteNote (NumId 4)]
 \<and> isLoading (fst (useDeleteNote \<lparr>isLoading = True, error = None\<rparr>)) = True"
  using hooks_return_state_and_action
    [where ?c4.0 = "\<lparr>isLoading = False, error = None\<rparr>" and ?n4.0 = "NumId 4"
       and ?r4.0 = "Inl NonError"]
    hooks_return_state_and_action
    [where ?c4.0 = "\<lparr>isLoading = True, error = None\<rparr>"]
  by simp


section \<open>Entities are not mutated\<close>

lemma NoteList_ref_frame:
  "r < length s \<Longrightarrow> snd (NoteList_ref p ty l s) ! r = s ! r"
  by (simp add: NoteList_ref_def Array_filter_ref_def Array_sort_ref_def nth_append)

lemma NoteList_ref_fresh: "length (snd (NoteList_ref p ty l s)) = Suc (length s)"
  by (simp add: NoteList_ref_def Array_filter_ref_def Array_sort_ref_def)

lemma NoteList_ref_render:
  "p < length s \<Longrightarrow> fst (NoteList_ref p ty l s) = NoteList (s ! p) ty l"
  by (simp add: NoteList_ref_def Array_filter_ref_def Array_sort_ref_def nth_append
      NoteList_def filteredAndSortedNotes_def Let_def)

lemma displayed_notes_subset: "set (displayed_notes (NoteList ns ty l)) \<subseteq> set ns"
proof -
  have "set (filteredAndSortedNotes ns ty) \<subseteq> set ns"
    using mset_Array_sort [of by_updatedDate "filter (access_filter ty) ns"]
    unfolding filteredAndSortedNotes_def
    by (metis filter_is_subset set_mset_mset)
  then show ?thesis by (simp add: NoteList_def Let_def)
qed

text \<open>
  C7. NoteList leaves every array that existed before it ran as it was, the notes prop
  among them: it allocates one array, the filtered one, and sorts that. What it renders
  is what the value-level component renders from the prop array, and every note shown
  is a note of the prop. The hooks store and return a service response as received.
\<close>

theorem entities_not_mutated:
  "(\<forall>r < length s. snd (NoteList_ref p ty l s) ! r = s ! r)
 \<and> length (snd (NoteList_ref p ty l s)) = Suc (length s)
 \<and> (p < length s \<longrightarrow>
      fst (NoteList_ref p ty l s) = NoteList (s ! p) ty l
    \<and> set (displayed_notes (fst (NoteList_ref p ty l s))) \<subseteq> set (s ! p))
 \<and> note' (note_after (fst (fetch nid (Inr d))) c1) = Some d
 \<and> note' (note_after (fst (createNote p2 (Inr r2))) c2) = Some r2
 \<and> snd (createNote p2 (Inr r2)) = Inr r2
 \<and> note' (note_after (fst (updateNoteContent p3 (Inr r3))) c3) = Some r3
 \<and> snd (updateNoteContent p3 (Inr r3)) = Inr r3
 \<and> snd (deleteNote n4 (Inr r4)) = Inr r4
 \<and> snd (makeNotePrivate n5 (Inr r5)) = Inr r5
 \<and> snd (updatePermissions p6 (Inr r6)) = Inr r6
 \<and> (duplicate_rejection got (Inr newNote) copied = None \<longrightarrow>
      snd (duplicateNote n7 slug got (Inr newNote) copied) = Inr newNote)"
proof -
  have dup: "duplicate_rejection got (Inr newNote) copied = None \<Longrightarrow>
      snd (duplicateNote n7 slug got (Inr newNote) copied) = Inr newNote"
    by (auto simp: duplicateNote_def duplicate_rejection_def rejection_def first_do_def
        split: sum.splits if_splits)
  have "note' (note_after (fst (fetch nid (Inr d))) c1) = Some d"
    by (simp add: fetch_def note_after_def)
  moreover have "note' (note_after (fst (createNote p2 (Inr r2))) c2) = Some r2"
    by (simp add: createNote_def first_do_def note_after_def)
  moreover have "note' (note_after (fst (updateNoteContent p3 (Inr r3))) c3) = Some r3"
    by (simp add: updateNoteContent_def first_do_def note_after_def)
  moreover have "snd (createNote p2 (Inr r2)) = Inr r2" "snd (updateNoteContent p3 (Inr r3)) = Inr r3"
    "snd (deleteNote n4 (Inr r4)) = Inr r4" "snd (makeNotePrivate n5 (Inr r5)) = Inr r5"
    "snd (updatePermissions p6 (Inr r6)) = Inr r6"
    by (simp_all add: createNote_def updateNoteContent_def deleteNote_def makeNotePrivate_def
        updatePermissions_def first_do_def)
  ultimately show ?thesis
    using dup NoteList_ref_frame [of _ s p ty l] NoteList_ref_fresh [of p ty l s]
      NoteList_ref_render [of p s ty l] displayed_notes_subset [of "s ! p" ty l]
    by simp
qed

theorem entities_not_mutated_witness:
  "snd (NoteList_ref 0 type_workspace False
      [[\<lparr>note_id = NumId 1, title = ''a'', access = WORKSPACE, updatedDate = Some 10\<rparr>,
        \<lparr>note_id = NumId 3, title = ''c'', access = SHARED, updatedDate = Some 20\<rparr>]]) ! 0
   = [\<lparr>note_id = NumId 1, title = ''a'', access = WORKSPACE, updatedDate = Some 10\<rparr>,
      \<lparr>note_id = NumId 3, title = ''c'', access = SHARED, updatedDate = Some 20\<rparr>]
 \<and> fst (NoteList_ref 0 type_workspace False
      [[\<lparr>note_id = NumId 1, title = ''a'', access = WORKSPACE, updatedDate = Some 10\<rparr>,
        \<lparr>note_id = NumId 3, title = ''c'', access = SHARED, updatedDate = Some 20\<rparr>]])
   = NoteListItems
      [\<lparr>note_id = NumId 3, title = ''c'', access = SHARED, updatedDate = Some 20\<rparr>,
       \<lparr>note_id = NumId 1, title = ''a'', access = WORKSPACE, updatedDate = Some 10\<rparr>]
 \<and> snd (duplicateNote ''1'' ''lab''
      (Inr \<lparr>note_id = NumId 1, title = ''a'', access = PRIVATE, updatedDate = Some 10,
            content = None, contentJson = None, plainText = None\<rparr>)
      (Inr \<lparr>note_id = NumId 2, title = ''a (Copy)'', access = PRIVATE, updatedDate = Some 11\<rparr>)
      (Inl NonError))
   = Inr \<lparr>note_id = NumId 2, title = ''a (Copy)'', access = PRIVATE, updatedDate = Some 11\<rparr>"
  using entities_not_mutated
    [where s = "[[\<lparr>note_id = NumId 1, title = ''a'', access = WORKSPACE, updatedDate = Some 10\<rparr>,
                  \<lparr>note_id = NumId 3, title = ''c'', access = SHARED, updatedDate = Some 20\<rparr>]]"
       and p = 0 and ty = type_workspace and l = False
       and got = "Inr \<lparr>note_id = NumId 1, title = ''a'', access = PRIVATE, updatedDate = Some 10,
            content = None, contentJson = None, plainText = None\<rparr>"
       and newNote = "\<lparr>note_id = NumId 2, title = ''a (Copy)'', access = PRIVATE, updatedDate = Some 11\<rparr>"
       and copied = "Inl NonError" and ?n7.0 = "''1''" and slug = "''lab''"]
  by (simp add: duplicate_rejection_def truthy_def NoteList_def filteredAndSortedNotes_def
      Array_sort_def by_updatedDate_def getTime_def SortCompare_def)

end
